theory Spec2Isabelle
  imports Main "HOL-Library.Word"
begin

unbundle bit_operations_syntax

section \<open>Bytes, strings and integers of the Go source\<close>

text \<open>
  The token bridge's message server, \<^verbatim>\<open>x/tokenbridge/keeper/msg_server_execute_vaa.go\<close>,
  is one function, \<^verbatim>\<open>ExecuteVAA\<close>. A Go \<^verbatim>\<open>byte\<close> is an 8-bit word, a slice of bytes a
  list, and a Go \<^verbatim>\<open>string\<close> is a sequence of bytes too: \<^verbatim>\<open>string(b)\<close> copies the bytes of
  \<^verbatim>\<open>b\<close> and decodes nothing.
\<close>

type_synonym byte = "8 word"
type_synonym bytes = "byte list"
type_synonym gostring = "byte list"

definition str :: "string \<Rightarrow> gostring" where
  \<comment> \<open>a string literal of the source, as its bytes\<close>
  "str s = map of_char s"

definition TrimLeft :: "gostring \<Rightarrow> byte \<Rightarrow> gostring" where
  \<comment> \<open>\<^verbatim>\<open>strings.TrimLeft(s, cutset)\<close> for a cutset of one ASCII byte: leading bytes go\<close>
  "TrimLeft s c = dropWhile (\<lambda>b. b = c) s"

definition TrimRight :: "gostring \<Rightarrow> byte \<Rightarrow> gostring" where
  "TrimRight s c = rev (dropWhile (\<lambda>b. b = c) (rev s))"

definition Trim :: "gostring \<Rightarrow> byte \<Rightarrow> gostring" where
  \<comment> \<open>\<^verbatim>\<open>strings.Trim(s, cutset)\<close> for a cutset of one ASCII byte: both ends\<close>
  "Trim s c = TrimLeft (TrimRight s c) c"

definition SetBytes :: "bytes \<Rightarrow> int" where
  \<comment> \<open>\<^verbatim>\<open>new(big.Int).SetBytes(b)\<close>: a big-endian unsigned integer of any size\<close>
  "SetBytes b = foldl (\<lambda>a x. a * 256 + uint x) 0 b"

definition BigEndian_Uint16 :: "bytes \<Rightarrow> 16 word" where
  \<comment> \<open>\<^verbatim>\<open>binary.BigEndian.Uint16(b)\<close> is \<^verbatim>\<open>uint16(b[1]) | uint16(b[0])<<8\<close>\<close>
  "BigEndian_Uint16 b = ucast (b ! 1) OR push_bit 8 (ucast (b ! 0))"

fun digit :: "nat \<Rightarrow> byte" where
  "digit n = (if n < 10 then of_nat (48 + n) else of_nat (87 + n))"

function decimal :: "nat \<Rightarrow> gostring" where
  \<comment> \<open>the verb \<^verbatim>\<open>%d\<close> of \<^verbatim>\<open>fmt.Sprintf\<close> on an unsigned value\<close>
  "decimal n = (if n < 10 then [digit n] else decimal (n div 10) @ [digit (n mod 10)])"
  by pat_completeness auto
termination
  by (relation "measure id") auto

declare decimal.simps [simp del]

definition hex :: "bytes \<Rightarrow> gostring" where
  \<comment> \<open>the verb \<^verbatim>\<open>%x\<close> on a byte array: two lower-case digits a byte\<close>
  "hex b = concat (map (\<lambda>x. [digit (unat x div 16), digit (unat x mod 16)]) b)"

section \<open>Data\<close>

type_synonym PayloadID = byte

definition PayloadIDTransfer :: PayloadID where
  "PayloadIDTransfer = 1"

definition PayloadIDAssetMeta :: PayloadID where
  "PayloadIDAssetMeta = 2"

text \<open>
  Modelled from the spec: the type \<^verbatim>\<open>VAA\<close> and its method \<^verbatim>\<open>HexDigest\<close> are declared
  outside the source file. Section 3 of the specification gives the verified message as
  a record of digest, emitter chain, emitter address, sequence and payload; the digest is
  a field here, read where the source calls \<^verbatim>\<open>v.HexDigest()\<close>.
\<close>

record VAA =
  HexDigest :: gostring
  EmitterChain :: "16 word"
  EmitterAddress :: bytes
  Sequence :: "64 word"
  Payload :: bytes

record MsgExecuteVAA =
  Creator :: gostring
  Vaa :: bytes

record Config =
  ChainId :: "32 word"

record ReplayProtection =
  rp_Index :: gostring

record ChainRegistration =
  ChainID :: "32 word"
  cr_EmitterAddress :: bytes

record CoinMetaRollbackProtection =
  Index :: gostring
  LastUpdateSequence :: "64 word"

record DenomUnit =
  du_Denom :: gostring
  Exponent :: "32 word"

record Metadata =
  Description :: gostring
  DenomUnits :: "DenomUnit list"
  Base :: gostring
  Display :: gostring
  Name :: gostring
  Symbol :: gostring

record Coin =
  Denom :: gostring
  Amount :: int

text \<open>
  The events hold the address bytes and the integers themselves where the source stores
  their renderings (\<^verbatim>\<open>String()\<close>: bech32 for an address, decimal for an amount).
\<close>

record EventTransferReceived =
  tr_TokenChain :: "32 word"
  tr_TokenAddress :: bytes
  tr_To :: bytes
  tr_FeeRecipient :: bytes
  tr_Amount :: int
  tr_Fee :: int
  tr_LocalDenom :: gostring

record EventAssetRegistrationUpdate =
  ar_TokenChain :: "32 word"
  ar_TokenAddress :: bytes
  ar_Name :: gostring
  ar_Symbol :: gostring
  ar_Decimals :: "32 word"

datatype Event =
    TransferReceived EventTransferReceived
  | AssetRegistrationUpdate EventAssetRegistrationUpdate

text \<open>
  Every way the function ends without success. An error of a collaborator is a
  \<^typ>\<open>string\<close>; \<open>Propagated\<close> is such an error returned as it came
  (\<^verbatim>\<open>return nil, err\<close>), the other constructors with an argument are the wrappings
  \<^verbatim>\<open>fmt.Errorf("...%w...")\<close> of the source. \<open>Panic\<close> is not a return: it is a panic
  of a library function, which ends the call.
\<close>

datatype error =
    Propagated string
  | Panic string
  | ErrNoConfig
  | ErrVAAAlreadyExecuted
  | ErrUnregisteredChain
  | ErrUnregisteredEmitter
  | ErrVAAPayloadInvalid
  | ErrInvalidTargetChain
  | ErrNoDenomMetadata
  | ErrAssetNotRegistered
  | ErrInvalidAmount string
  | FailedUntruncateAmount string
  | ErrInvalidFee string
  | FailedUntruncateFee string
  | ErrFeeTooHigh
  | FailedMintCoins Coin string
  | FailedSendFees Coin string
  | ErrNativeAssetRegistration
  | ErrAssetMetaRollback
  | MismatchedDisplayDenom gostring gostring
  | ErrChangeDecimals
  | ErrUnknownPayloadType

section \<open>The state and the collaborators\<close>

text \<open>
  The context \<^verbatim>\<open>ctx\<close> gives the keepers their stores. The module's own stores and the
  bank's denomination metadata are key-value maps; the balances of the bank are a value
  of a type \<open>'l\<close> that only the bank's operations read and write; the event manager
  holds the events emitted so far.
\<close>

record 'l state =
  config :: "Config option"
  replayProtection :: "gostring \<rightharpoonup> ReplayProtection"
  chainRegistration :: "32 word \<rightharpoonup> ChainRegistration"
  coinMetaRollbackProtection :: "gostring \<rightharpoonup> CoinMetaRollbackProtection"
  denomMetaData :: "gostring \<rightharpoonup> Metadata"
  ledger :: 'l
  events :: "Event list"

text \<open>
  Modelled from the spec: the accessors of the stores are declared outside the source
  file. Section 6 of the specification gives each store as a lookup by key that reports
  whether the key was found, and a write of a record under its key; the bank keeps
  denomination metadata under its base denomination.
\<close>

definition GetConfig :: "'l state \<Rightarrow> Config option" where
  "GetConfig ctx = config ctx"

definition GetReplayProtection :: "'l state \<Rightarrow> gostring \<Rightarrow> ReplayProtection option" where
  "GetReplayProtection ctx index = replayProtection ctx index"

definition SetReplayProtection :: "'l state \<Rightarrow> ReplayProtection \<Rightarrow> 'l state" where
  "SetReplayProtection ctx r = ctx\<lparr>replayProtection := (replayProtection ctx)(rp_Index r \<mapsto> r)\<rparr>"

definition GetChainRegistration :: "'l state \<Rightarrow> 32 word \<Rightarrow> ChainRegistration option" where
  "GetChainRegistration ctx chainID = chainRegistration ctx chainID"

definition GetCoinMetaRollbackProtection ::
  "'l state \<Rightarrow> gostring \<Rightarrow> CoinMetaRollbackProtection option" where
  "GetCoinMetaRollbackProtection ctx index = coinMetaRollbackProtection ctx index"

definition SetCoinMetaRollbackProtection ::
  "'l state \<Rightarrow> CoinMetaRollbackProtection \<Rightarrow> 'l state" where
  "SetCoinMetaRollbackProtection ctx r =
     ctx\<lparr>coinMetaRollbackProtection := (coinMetaRollbackProtection ctx)(Index r \<mapsto> r)\<rparr>"

definition GetDenomMetaData :: "'l state \<Rightarrow> gostring \<Rightarrow> Metadata option" where
  "GetDenomMetaData ctx denom = denomMetaData ctx denom"

definition SetDenomMetaData :: "'l state \<Rightarrow> Metadata \<Rightarrow> 'l state" where
  "SetDenomMetaData ctx m = ctx\<lparr>denomMetaData := (denomMetaData ctx)(Base m \<mapsto> m)\<rparr>"

text \<open>
  The functions of other packages that the source calls and that may fail or whose
  result the source cannot see into are parameters: the parser and the verifier of the
  Wormhole keeper, the two functions on token identities and the normaliser of package
  \<^verbatim>\<open>types\<close>, the validity check of a coin and the bit limit of the library's integers,
  the bank's mint and send (for the module
  \<^verbatim>\<open>types.ModuleName\<close>), the module's address, the bech32 decoder and the event manager.
  A collaborator that fails returns its error and no new state.
\<close>

record 'l env =
  ParseVAA :: "bytes \<Rightarrow> string + VAA"
  VerifyVAA :: "'l state \<Rightarrow> VAA \<Rightarrow> string option"
  IsWORMToken :: "16 word \<Rightarrow> bytes \<Rightarrow> bool"
  GetWrappedCoinIdentifier :: "16 word \<Rightarrow> bytes \<Rightarrow> gostring"
  Validate :: "Coin \<Rightarrow> string option"
  MaxBitLen :: nat
  Untruncate :: "Coin \<Rightarrow> Metadata \<Rightarrow> string + Coin"
  MintCoins :: "'l \<Rightarrow> Coin list \<Rightarrow> string + 'l"
  SendCoins :: "'l \<Rightarrow> bytes \<Rightarrow> bytes \<Rightarrow> Coin list \<Rightarrow> string + 'l"
  GetModuleAddress :: bytes
  AccAddressFromBech32 :: "gostring \<Rightarrow> string + bytes"
  EmitTypedEvent :: "Event \<Rightarrow> string option"

text \<open>
  The constructors of the library. \<^verbatim>\<open>sdk.NewIntFromBigInt\<close> panics on an integer of more
  bits than the library's limit; \<^verbatim>\<open>sdk.NewCoin\<close> validates the coin it has made, with the
  check that \<^verbatim>\<open>Validate\<close> is, and panics when the coin is not valid. A panic is the
  value \<open>Inl\<close> of its message. \<open>rawCoin\<close> is the expression of lines 112 and 121,
  \<^verbatim>\<open>sdk.NewCoin(identifier, sdk.NewIntFromBigInt(x))\<close>.
\<close>

definition NewIntFromBigInt :: "'l env \<Rightarrow> int \<Rightarrow> string + int" where
  "NewIntFromBigInt env i =
     (if 2 ^ MaxBitLen env \<le> \<bar>i\<bar> then Inl ''NewIntFromBigInt() out of bound'' else Inr i)"

definition NewCoin :: "'l env \<Rightarrow> gostring \<Rightarrow> int \<Rightarrow> string + Coin" where
  "NewCoin env denom amount =
     (let coin = \<lparr>Denom = denom, Amount = amount\<rparr> in
      case Validate env coin of Some err \<Rightarrow> Inl err | None \<Rightarrow> Inr coin)"

definition rawCoin :: "'l env \<Rightarrow> gostring \<Rightarrow> int \<Rightarrow> string + Coin" where
  "rawCoin env identifier x =
     (case NewIntFromBigInt env x of Inl p \<Rightarrow> Inl p | Inr i \<Rightarrow> NewCoin env identifier i)"

text \<open>
  The methods of \<^verbatim>\<open>sdk.Coin\<close> that the source uses, on the amounts. The source compares
  and subtracts two coins that the normaliser returned for one denomination, and
  subtracts the fee only once it is not above the amount; what the library does with
  coins of two denominations or with a negative difference is outside this development.
\<close>

definition IsLT :: "Coin \<Rightarrow> Coin \<Rightarrow> bool" where
  "IsLT coin other = (Amount coin < Amount other)"

definition Sub :: "Coin \<Rightarrow> Coin \<Rightarrow> Coin" where
  "Sub coin coinB = \<lparr>Denom = Denom coin, Amount = Amount coin - Amount coinB\<rparr>"

definition IsPositive :: "Coin \<Rightarrow> bool" where
  "IsPositive coin = (0 < Amount coin)"

section \<open>ExecuteVAA\<close>

type_synonym 'l result = "(error + unit) \<times> 'l state"

text \<open>
  Lines 87 to 101: the denomination of a transfer and whether it is minted here.
\<close>

definition transferIdentifier :: "'l env \<Rightarrow> Config \<Rightarrow> 16 word \<Rightarrow> bytes \<Rightarrow> gostring \<times> bool" where
  "transferIdentifier env wormholeConfig tokenChain tokenAddress =
     (if IsWORMToken env tokenChain tokenAddress then (str ''uworm'', True)
      else if ucast tokenChain \<noteq> ChainId wormholeConfig then
        (str ''b'' @ GetWrappedCoinIdentifier env tokenChain tokenAddress, True)
      else (TrimLeft tokenAddress 0, False))"

text \<open>
  Lines 134 to 170, the effects of a transfer whose checks have passed: mint, send to the
  recipient, send the fee, emit the event. A failure returns the context as the writes
  before it have left it.
\<close>

definition transferEffects ::
  "'l env \<Rightarrow> 'l state \<Rightarrow> gostring \<Rightarrow> 16 word \<Rightarrow> bytes \<Rightarrow> bytes \<Rightarrow> gostring \<Rightarrow> bool
     \<Rightarrow> Coin \<Rightarrow> Coin \<Rightarrow> 'l result" where
  "transferEffects env ctx creator tokenChain tokenAddress to identifier wrapped amount fee =
    (case (if wrapped then MintCoins env (ledger ctx) [amount] else Inr (ledger ctx)) of
       Inl err \<Rightarrow> (Inl (FailedMintCoins amount err), ctx)
     | Inr l1 \<Rightarrow>
        (let ctx1 = ctx\<lparr>ledger := l1\<rparr>;
             moduleAccount = GetModuleAddress env;
             amtLessFees = Sub amount fee
         in
         case SendCoins env (ledger ctx1) moduleAccount to [amtLessFees] of
           Inl err \<Rightarrow> (Inl (Propagated err), ctx1)
         | Inr l2 \<Rightarrow>
            (let ctx2 = ctx1\<lparr>ledger := l2\<rparr> in
             case AccAddressFromBech32 env creator of
               Inl err \<Rightarrow> (Inl (Propagated err), ctx2)
             | Inr txSender \<Rightarrow>
                (case (if IsPositive fee
                       then SendCoins env (ledger ctx2) moduleAccount txSender [fee]
                       else Inr (ledger ctx2)) of
                   Inl err \<Rightarrow> (Inl (FailedSendFees fee err), ctx2)
                 | Inr l3 \<Rightarrow>
                    (let ctx3 = ctx2\<lparr>ledger := l3\<rparr>;
                         ev = TransferReceived
                                \<lparr>tr_TokenChain = ucast tokenChain, tr_TokenAddress = tokenAddress,
                                 tr_To = to, tr_FeeRecipient = txSender,
                                 tr_Amount = Amount amount, tr_Fee = Amount fee,
                                 tr_LocalDenom = identifier\<rparr>
                     in
                     case EmitTypedEvent env ev of
                       Some err \<Rightarrow> (Inl (Propagated err), ctx3)
                     | None \<Rightarrow> (Inr (), ctx3\<lparr>events := events ctx3 @ [ev]\<rparr>))))))"

text \<open>
  Lines 112 to 132, the amounts of a transfer: each raw amount is made a coin, which can
  panic; the coin is validated and normalised; and the fee may not exceed the amount.
\<close>

definition transferAmounts ::
  "'l env \<Rightarrow> gostring \<Rightarrow> Metadata \<Rightarrow> int \<Rightarrow> int \<Rightarrow> error + Coin \<times> Coin" where
  "transferAmounts env identifier meta unnormalizedAmount unnormalizedFee =
    (case rawCoin env identifier unnormalizedAmount of
       Inl p \<Rightarrow> Inl (Panic p)
     | Inr amt \<Rightarrow>
        (case Validate env amt of
           Some err \<Rightarrow> Inl (ErrInvalidAmount err)
         | None \<Rightarrow>
            (case Untruncate env amt meta of
               Inl err \<Rightarrow> Inl (FailedUntruncateAmount err)
             | Inr amount \<Rightarrow>
                (case rawCoin env identifier unnormalizedFee of
                   Inl p \<Rightarrow> Inl (Panic p)
                 | Inr f \<Rightarrow>
                    (case Validate env f of
                       Some err \<Rightarrow> Inl (ErrInvalidFee err)
                     | None \<Rightarrow>
                        (case Untruncate env f meta of
                           Inl err \<Rightarrow> Inl (FailedUntruncateFee err)
                         | Inr fee \<Rightarrow>
                             if IsLT amount fee then Inl ErrFeeTooHigh
                             else Inr (amount, fee)))))))"

text \<open>
  Lines 69 to 170, the case \<^verbatim>\<open>PayloadIDTransfer\<close> of the switch.
\<close>

definition ExecuteVAA_Transfer ::
  "'l env \<Rightarrow> Config \<Rightarrow> 'l state \<Rightarrow> gostring \<Rightarrow> bytes \<Rightarrow> 'l result" where
  "ExecuteVAA_Transfer env wormholeConfig ctx creator payload =
    (if length payload \<noteq> 132 then (Inl ErrVAAPayloadInvalid, ctx) else
     let unnormalizedAmount = SetBytes (take 32 payload);
         tokenAddress = take 32 (drop 32 payload);
         tokenChain = BigEndian_Uint16 (take 2 (drop 64 payload));
         to = take 20 (drop 78 payload);
         toChain = BigEndian_Uint16 (take 2 (drop 98 payload));
         unnormalizedFee = SetBytes (take 32 (drop 100 payload))
     in
     if ucast toChain \<noteq> ChainId wormholeConfig then (Inl ErrInvalidTargetChain, ctx) else
     let identifier = fst (transferIdentifier env wormholeConfig tokenChain tokenAddress);
         wrapped = snd (transferIdentifier env wormholeConfig tokenChain tokenAddress)
     in
     case GetDenomMetaData ctx identifier of
       None \<Rightarrow>
         (if \<not> wrapped then (Inl ErrNoDenomMetadata, ctx)
          else (Inl ErrAssetNotRegistered, ctx))
     | Some meta \<Rightarrow>
        (case transferAmounts env identifier meta unnormalizedAmount unnormalizedFee of
           Inl e \<Rightarrow> (Inl e, ctx)
         | Inr (amount, fee) \<Rightarrow>
             transferEffects env ctx creator tokenChain tokenAddress to identifier wrapped
               amount fee))"

text \<open>
  Lines 210 to 214: the loop over the units of the stored metadata returns at the first
  unit of the display denomination whose exponent is not the message's.
\<close>

fun changesDecimals :: "gostring \<Rightarrow> 32 word \<Rightarrow> DenomUnit list \<Rightarrow> bool" where
  "changesDecimals identifier decimals [] = False"
| "changesDecimals identifier decimals (d # ds) =
     (if du_Denom d = identifier \<and> Exponent d \<noteq> decimals then True
      else changesDecimals identifier decimals ds)"

text \<open>
  Lines 172 to 248, the case \<^verbatim>\<open>PayloadIDAssetMeta\<close>.
\<close>

definition ExecuteVAA_AssetMeta ::
  "'l env \<Rightarrow> Config \<Rightarrow> 'l state \<Rightarrow> VAA \<Rightarrow> bytes \<Rightarrow> 'l result" where
  "ExecuteVAA_AssetMeta env wormholeConfig ctx v payload =
    (if length payload \<noteq> 99 then (Inl ErrVAAPayloadInvalid, ctx) else
     let tokenAddress = take 32 payload;
         tokenChain = BigEndian_Uint16 (take 2 (drop 32 payload));
         decimals = payload ! 34;
         symbol = Trim (take 32 (drop 35 payload)) 0;
         name = Trim (take 32 (drop 67 payload)) 0
     in
     if ucast tokenChain = ChainId wormholeConfig then (Inl ErrNativeAssetRegistration, ctx) else
     if IsWORMToken env tokenChain tokenAddress then (Inl ErrNativeAssetRegistration, ctx) else
     case GetChainRegistration ctx (ucast tokenChain) of
       None \<Rightarrow> (Inl ErrUnregisteredEmitter, ctx)
     | Some _ \<Rightarrow>
    (let identifier = GetWrappedCoinIdentifier env tokenChain tokenAddress;
         baseDenom = str ''b'' @ identifier
     in
     if (case GetCoinMetaRollbackProtection ctx identifier of
           None \<Rightarrow> False
         | Some rollBackProtection \<Rightarrow> LastUpdateSequence rollBackProtection \<ge> Sequence v)
     then (Inl ErrAssetMetaRollback, ctx) else
     case (case GetDenomMetaData ctx baseDenom of
             None \<Rightarrow> None
           | Some meta \<Rightarrow>
               if Display meta \<noteq> identifier
               then Some (MismatchedDisplayDenom (Display meta) identifier)
               else if changesDecimals identifier (ucast decimals) (DenomUnits meta)
               then Some ErrChangeDecimals
               else None) of
       Some e \<Rightarrow> (Inl e, ctx)
     | None \<Rightarrow>
    (let ctx1 = SetDenomMetaData ctx
                  \<lparr>Description = str ''Portal wrapped asset from chain '' @ decimal (unat tokenChain)
                                   @ str '' with address '' @ hex tokenAddress,
                   DenomUnits = [\<lparr>du_Denom = baseDenom, Exponent = 0\<rparr>,
                                 \<lparr>du_Denom = identifier, Exponent = ucast decimals\<rparr>],
                   Base = baseDenom,
                   Display = identifier,
                   Name = name,
                   Symbol = symbol\<rparr>;
         ctx2 = SetCoinMetaRollbackProtection ctx1
                  \<lparr>Index = identifier, LastUpdateSequence = Sequence v\<rparr>;
         ev = AssetRegistrationUpdate
                \<lparr>ar_TokenChain = ucast tokenChain, ar_TokenAddress = tokenAddress,
                 ar_Name = name, ar_Symbol = symbol, ar_Decimals = ucast decimals\<rparr>
     in
     case EmitTypedEvent env ev of
       Some err \<Rightarrow> (Inl (Propagated err), ctx2)
     | None \<Rightarrow> (Inr (), ctx2\<lparr>events := events ctx2 @ [ev]\<rparr>))))"

text \<open>
  Lines 46 to 256: the function from the replay check on, for a message \<open>v\<close> that was
  parsed and verified and a configuration that was found.
\<close>

definition ExecuteVAA_verified ::
  "'l env \<Rightarrow> Config \<Rightarrow> 'l state \<Rightarrow> VAA \<Rightarrow> gostring \<Rightarrow> 'l result" where
  "ExecuteVAA_verified env wormholeConfig ctx v creator =
    (case GetReplayProtection ctx (HexDigest v) of
       Some _ \<Rightarrow> (Inl ErrVAAAlreadyExecuted, ctx)
     | None \<Rightarrow>
    (case GetChainRegistration ctx (ucast (EmitterChain v)) of
       None \<Rightarrow> (Inl ErrUnregisteredChain, ctx)
     | Some registration \<Rightarrow>
    (if EmitterAddress v \<noteq> cr_EmitterAddress registration then (Inl ErrUnregisteredEmitter, ctx) else
     if length (Payload v) < 1 then (Inl ErrVAAPayloadInvalid, ctx) else
     let payloadID = hd (Payload v);
         payload = tl (Payload v)
     in
     case (if payloadID = PayloadIDTransfer
           then ExecuteVAA_Transfer env wormholeConfig ctx creator payload
           else if payloadID = PayloadIDAssetMeta
           then ExecuteVAA_AssetMeta env wormholeConfig ctx v payload
           else (Inl ErrUnknownPayloadType, ctx)) of
       (Inl e, ctx') \<Rightarrow> (Inl e, ctx')
     | (Inr _, ctx') \<Rightarrow> (Inr (), SetReplayProtection ctx' \<lparr>rp_Index = HexDigest v\<rparr>))))"

text \<open>
  Lines 26 to 44 and the call of the rest: parse, verify, read the configuration.
\<close>

definition ExecuteVAA :: "'l env \<Rightarrow> 'l state \<Rightarrow> MsgExecuteVAA \<Rightarrow> 'l result" where
  "ExecuteVAA env ctx msg =
    (case ParseVAA env (Vaa msg) of
       Inl err \<Rightarrow> (Inl (Propagated err), ctx)
     | Inr v \<Rightarrow>
        (case VerifyVAA env ctx v of
           Some err \<Rightarrow> (Inl (Propagated err), ctx)
         | None \<Rightarrow>
            (case GetConfig ctx of
               None \<Rightarrow> (Inl ErrNoConfig, ctx)
             | Some wormholeConfig \<Rightarrow>
                 ExecuteVAA_verified env wormholeConfig ctx v (Creator msg))))"

section \<open>The surrounding transaction\<close>

text \<open>
  Modelled from the spec: the transaction machinery that calls the function is not part
  of the source file. Section 5 of the specification: a call that fails leaves no trace,
  a call that succeeds is committed.
\<close>

definition commit :: "'l env \<Rightarrow> 'l state \<Rightarrow> MsgExecuteVAA \<Rightarrow> 'l state" where
  "commit env ctx msg =
     (case ExecuteVAA env ctx msg of (Inl e, ctx') \<Rightarrow> ctx | (Inr u, ctx') \<Rightarrow> ctx')"

section \<open>Messages that reach the switch\<close>

text \<open>
  The checks of lines 30 to 59, as one condition on a submitted message: it parses to
  \<open>v\<close>, \<open>v\<close> verifies, the configuration is found, the digest of \<open>v\<close> has no replay
  record, and the chain of its emitter is registered with the emitter's address.
\<close>

definition reachesSwitch :: "'l env \<Rightarrow> 'l state \<Rightarrow> MsgExecuteVAA \<Rightarrow> VAA \<Rightarrow> Config \<Rightarrow> bool" where
  "reachesSwitch env ctx msg v wormholeConfig =
     (ParseVAA env (Vaa msg) = Inr v \<and> VerifyVAA env ctx v = None
      \<and> GetConfig ctx = Some wormholeConfig
      \<and> GetReplayProtection ctx (HexDigest v) = None
      \<and> (case GetChainRegistration ctx (ucast (EmitterChain v)) of
            None \<Rightarrow> False
          | Some registration \<Rightarrow> EmitterAddress v = cr_EmitterAddress registration))"

section \<open>An in-memory double of the collaborators\<close>

text \<open>
  The theorems below hold for every collaborator. Their hypotheses are met, and the
  statements of the specification that fail are refuted, on the double defined here:
  balances are a function of account and denomination, a send fails on insufficient
  funds, a coin is well formed when its denomination has 3 to 128 bytes and its amount is
  non-negative and below \<open>2 ^ 255\<close>, the bit limit of an integer is 255, the verifier accepts every message and the parser looks the submitted bytes up in a
  table of messages.
\<close>

type_synonym balances = "bytes \<times> gostring \<Rightarrow> int"

fun memMint :: "bytes \<Rightarrow> balances \<Rightarrow> Coin list \<Rightarrow> string + balances" where
  "memMint acc l [] = Inr l"
| "memMint acc l (c # cs) =
     (if Amount c < 0 then Inl ''negative coin amount''
      else memMint acc (l((acc, Denom c) := l (acc, Denom c) + Amount c)) cs)"

fun memSend :: "balances \<Rightarrow> bytes \<Rightarrow> bytes \<Rightarrow> Coin list \<Rightarrow> string + balances" where
  "memSend l from to [] = Inr l"
| "memSend l from to (c # cs) =
     (if Amount c < 0 then Inl ''negative coin amount''
      else if l (from, Denom c) < Amount c then Inl ''insufficient funds''
      else let l1 = l((from, Denom c) := l (from, Denom c) - Amount c);
               l2 = l1((to, Denom c) := l1 (to, Denom c) + Amount c)
           in memSend l2 from to cs)"

definition wellFormedCoin :: "Coin \<Rightarrow> bool" where
  "wellFormedCoin c =
     (3 \<le> length (Denom c) \<and> length (Denom c) \<le> 128 \<and> 0 \<le> Amount c \<and> Amount c < 2 ^ 255)"

text \<open>
  Modelled from the spec: \<^verbatim>\<open>types.Untruncate\<close> is declared outside the source file.
  Section 4.4 of the specification: the wire has 8 decimal places; where the native
  precision (the exponent of the display unit) is at least 8 the amount is scaled up by
  \<open>10 ^ (native - 8)\<close>, otherwise it is scaled down by \<open>10 ^ (8 - native)\<close>, rounding
  down; the normaliser fails if the resulting value would be negative or malformed.
  Metadata that does not list its display unit gives no native precision: the double
  fails there as well.
\<close>

definition specUntruncate :: "Coin \<Rightarrow> Metadata \<Rightarrow> string + Coin" where
  "specUntruncate coin meta =
     (case find (\<lambda>d. du_Denom d = Display meta) (DenomUnits meta) of
        None \<Rightarrow> Inl ''display unit not found''
      | Some d \<Rightarrow>
          (let native = unat (Exponent d);
               normalized = coin\<lparr>Amount :=
                 (if 8 \<le> native then Amount coin * 10 ^ (native - 8)
                  else Amount coin div 10 ^ (8 - native))\<rparr>
           in if wellFormedCoin normalized then Inr normalized
              else Inl ''normalized amount is malformed''))"

definition memEnv :: "(bytes \<times> VAA) list \<Rightarrow> balances env" where
  "memEnv wire =
     \<lparr>ParseVAA = (\<lambda>b. case map_of wire b of None \<Rightarrow> Inl ''cannot parse'' | Some v \<Rightarrow> Inr v),
      VerifyVAA = (\<lambda>ctx v. None),
      IsWORMToken = (\<lambda>tokenChain tokenAddress. tokenChain = 1 \<and> tokenAddress = replicate 32 1),
      GetWrappedCoinIdentifier = (\<lambda>tokenChain tokenAddress.
         str ''wh/'' @ decimal (unat tokenChain) @ str ''/'' @ hex tokenAddress),
      Validate = (\<lambda>c. if wellFormedCoin c then None else Some ''invalid coin''),
      MaxBitLen = 255,
      Untruncate = specUntruncate,
      MintCoins = memMint (str ''tokenbridge''),
      SendCoins = memSend,
      GetModuleAddress = str ''tokenbridge'',
      AccAddressFromBech32 = (\<lambda>s. if s = [] then Inl ''empty address string is not allowed''
                                   else Inr s),
      EmitTypedEvent = (\<lambda>ev. None)\<rparr>"

section \<open>Messages and a state to run them on\<close>

text \<open>
  The local chain is 3104 (\<open>0x0C20\<close>); chain 2 is registered with one emitter. The bank
  knows two native denominations and the module account holds 5 \<open>uatom\<close>. The
  table of messages: (1) a native transfer of 7 with fee 3, more than the module holds
  once the recipient is paid; (2) a native transfer of 5 without fee; (3) one whose fee
  exceeds its amount; (4) message 2 again, digest and all, with other reserved bytes;
  (5) to (8) metadata of one asset of chain 2 with sequences 5, 4, 6, 7; (9) a transfer
  of that asset; (10) a raw amount that is well formed and whose normalised value is
  not; (11) a raw fee that is well formed and whose normalised value is not; (12) the
  payload of message 4 under a digest of its own; (13) an emitter chain that is not
  registered; (14) an emitter that is not the registered one.
\<close>

definition leftPad :: "nat \<Rightarrow> bytes \<Rightarrow> bytes" where
  "leftPad n b = replicate (n - length b) 0 @ b"

definition rightPad :: "nat \<Rightarrow> bytes \<Rightarrow> bytes" where
  "rightPad n b = b @ replicate (n - length b) 0"

definition localConfig :: Config where
  "localConfig = \<lparr>ChainId = 3104\<rparr>"

definition ethEmitter :: bytes where
  "ethEmitter = leftPad 32 (replicate 20 0xEE)"

definition wethAddress :: bytes where
  "wethAddress = leftPad 32 (replicate 20 0xCD)"

definition recipient :: bytes where
  "recipient = replicate 20 0xAA"

definition nativeMeta :: "string \<Rightarrow> string \<Rightarrow> 32 word \<Rightarrow> Metadata" where
  "nativeMeta base display exponent =
     \<lparr>Description = str display,
      DenomUnits = [\<lparr>du_Denom = str base, Exponent = 0\<rparr>,
                    \<lparr>du_Denom = str display, Exponent = exponent\<rparr>],
      Base = str base, Display = str display, Name = str display, Symbol = str display\<rparr>"

definition genesis :: "balances state" where
  "genesis =
     \<lparr>config = Some localConfig,
      replayProtection = Map.empty,
      chainRegistration = [2 \<mapsto> \<lparr>ChainID = 2, cr_EmitterAddress = ethEmitter\<rparr>],
      coinMetaRollbackProtection = Map.empty,
      denomMetaData = [str ''uatom'' \<mapsto> nativeMeta ''uatom'' ''atom'' 6,
                       str ''atest'' \<mapsto> nativeMeta ''atest'' ''test'' 18],
      ledger = (\<lambda>k. if k = (str ''tokenbridge'', str ''uatom'') then 5 else 0),
      events = []\<rparr>"

definition transferPayload :: "bytes \<Rightarrow> bytes \<Rightarrow> 8 word list \<Rightarrow> bytes \<Rightarrow> bytes \<Rightarrow> bytes" where
  "transferPayload amount tokenAddress tokenChain reserved fee =
     [1] @ leftPad 32 amount @ leftPad 32 tokenAddress @ tokenChain @ reserved @ recipient
       @ [0x0C, 0x20] @ leftPad 32 fee"

definition assetMetaPayload :: "byte \<Rightarrow> string \<Rightarrow> string \<Rightarrow> bytes" where
  "assetMetaPayload decimals symbol name =
     [2] @ wethAddress @ [0, 2] @ [decimals] @ rightPad 32 (str symbol) @ rightPad 32 (str name)"

definition fromEth :: "string \<Rightarrow> 64 word \<Rightarrow> bytes \<Rightarrow> VAA" where
  "fromEth digest sequence payload =
     \<lparr>HexDigest = str digest, EmitterChain = 2, EmitterAddress = ethEmitter,
      Sequence = sequence, Payload = payload\<rparr>"

definition wire :: "(bytes \<times> VAA) list" where
  "wire =
    [([1], fromEth ''d1'' 1 (transferPayload [2, 0xBC] (str ''uatom'') [0x0C, 0x20] (replicate 12 0) [1, 0x2C])),
     ([2], fromEth ''d2'' 2 (transferPayload [1, 0xF4] (str ''uatom'') [0x0C, 0x20] (replicate 12 0) [])),
     ([3], fromEth ''d3'' 3 (transferPayload [1, 0x2C] (str ''uatom'') [0x0C, 0x20] (replicate 12 0) [2, 0xBC])),
     ([4], fromEth ''d2'' 2 (transferPayload [1, 0xF4] (str ''uatom'') [0x0C, 0x20] (replicate 12 0xFF) [])),
     ([5], fromEth ''d5'' 5 (assetMetaPayload 8 ''WETH'' ''Wrapped Ether'')),
     ([6], fromEth ''d6'' 4 (assetMetaPayload 6 ''WETH'' ''Wrapped Ether'')),
     ([7], fromEth ''d7'' 6 (assetMetaPayload 6 ''WETH'' ''Wrapped Ether'')),
     ([8], fromEth ''d8'' 7 (assetMetaPayload 8 ''ETH'' ''Ether'')),
     ([9], fromEth ''d9'' 9 (transferPayload [100] wethAddress [0, 2] (replicate 12 0) [1])),
     ([10], fromEth ''d10'' 10 (transferPayload (0x40 # replicate 31 0) (str ''atest'') [0x0C, 0x20] (replicate 12 0) [])),
     ([11], fromEth ''d11'' 11 (transferPayload [100] (str ''atest'') [0x0C, 0x20] (replicate 12 0) (0x40 # replicate 31 0))),
     ([12], fromEth ''d12'' 2 (transferPayload [1, 0xF4] (str ''uatom'') [0x0C, 0x20] (replicate 12 0xFF) [])),
     ([13], (fromEth ''d13'' 13 [1])\<lparr>EmitterChain := 5\<rparr>),
     ([14], (fromEth ''d14'' 14 [1])\<lparr>EmitterAddress := leftPad 32 (replicate 20 0xEF)\<rparr>)]"

definition submit :: "byte \<Rightarrow> MsgExecuteVAA" where
  "submit n = \<lparr>Creator = str ''relayer'', Vaa = [n]\<rparr>"

definition wethIdentifier :: gostring where
  "wethIdentifier = GetWrappedCoinIdentifier (memEnv wire) 2 wethAddress"

definition registered :: "balances state" where
  \<comment> \<open>the state once message 5 has registered the asset of chain 2\<close>
  "registered = commit (memEnv wire) genesis (submit 5)"

section \<open>What a call leaves unchanged\<close>

lemma ExecuteVAA_unfold:
  "ParseVAA env (Vaa msg) = Inr v \<Longrightarrow> VerifyVAA env ctx v = None \<Longrightarrow> GetConfig ctx = Some cfg
   \<Longrightarrow> ExecuteVAA env ctx msg = ExecuteVAA_verified env cfg ctx v (Creator msg)"
  by (simp add: ExecuteVAA_def)

lemma verified_Transfer:
  assumes "GetReplayProtection ctx (HexDigest v) = None"
    and "GetChainRegistration ctx (ucast (EmitterChain v)) = Some reg"
    and "EmitterAddress v = cr_EmitterAddress reg"
    and "Payload v = 1 # body"
  shows "ExecuteVAA_verified env cfg ctx v creator =
     (case ExecuteVAA_Transfer env cfg ctx creator body of
        (Inl e, ctx') \<Rightarrow> (Inl e, ctx')
      | (Inr u, ctx') \<Rightarrow> (Inr (), SetReplayProtection ctx' \<lparr>rp_Index = HexDigest v\<rparr>))"
  using assms by (simp add: ExecuteVAA_verified_def PayloadIDTransfer_def)

lemma verified_AssetMeta:
  assumes "GetReplayProtection ctx (HexDigest v) = None"
    and "GetChainRegistration ctx (ucast (EmitterChain v)) = Some reg"
    and "EmitterAddress v = cr_EmitterAddress reg"
    and "Payload v = 2 # body"
  shows "ExecuteVAA_verified env cfg ctx v creator =
     (case ExecuteVAA_AssetMeta env cfg ctx v body of
        (Inl e, ctx') \<Rightarrow> (Inl e, ctx')
      | (Inr u, ctx') \<Rightarrow> (Inr (), SetReplayProtection ctx' \<lparr>rp_Index = HexDigest v\<rparr>))"
  using assms by (simp add: ExecuteVAA_verified_def PayloadIDTransfer_def PayloadIDAssetMeta_def)

lemma transferEffects_stores:
  assumes "transferEffects env ctx creator tc ta to ident w amount fee = (r, ctx')"
  shows "config ctx' = config ctx \<and> replayProtection ctx' = replayProtection ctx
       \<and> chainRegistration ctx' = chainRegistration ctx
       \<and> coinMetaRollbackProtection ctx' = coinMetaRollbackProtection ctx
       \<and> denomMetaData ctx' = denomMetaData ctx"
  using assms
  by (auto simp: transferEffects_def Let_def split: sum.splits option.splits if_splits)

lemma Transfer_stores:
  assumes "ExecuteVAA_Transfer env cfg ctx creator payload = (r, ctx')"
  shows "config ctx' = config ctx \<and> replayProtection ctx' = replayProtection ctx
       \<and> chainRegistration ctx' = chainRegistration ctx
       \<and> coinMetaRollbackProtection ctx' = coinMetaRollbackProtection ctx
       \<and> denomMetaData ctx' = denomMetaData ctx"
  using assms
  by (auto simp: ExecuteVAA_Transfer_def Let_def split: sum.splits option.splits if_splits prod.splits
      dest: transferEffects_stores)

lemma AssetMeta_stores:
  assumes "ExecuteVAA_AssetMeta env cfg ctx v payload = (r, ctx')"
  shows "config ctx' = config ctx \<and> replayProtection ctx' = replayProtection ctx
       \<and> chainRegistration ctx' = chainRegistration ctx \<and> ledger ctx' = ledger ctx"
  using assms
  by (auto simp: ExecuteVAA_AssetMeta_def Let_def SetDenomMetaData_def SetCoinMetaRollbackProtection_def
      split: sum.splits option.splits if_splits prod.splits)

lemma verified_stores:
  assumes "ExecuteVAA_verified env cfg ctx v creator = (r, ctx')"
  shows "config ctx' = config ctx \<and> chainRegistration ctx' = chainRegistration ctx
    \<and> replayProtection ctx' =
        (case r of Inl e \<Rightarrow> replayProtection ctx
         | Inr u \<Rightarrow> (replayProtection ctx)(HexDigest v \<mapsto> \<lparr>rp_Index = HexDigest v\<rparr>))"
proof -
  let ?d = "if hd (Payload v) = PayloadIDTransfer
           then ExecuteVAA_Transfer env cfg ctx creator (tl (Payload v))
           else if hd (Payload v) = PayloadIDAssetMeta
           then ExecuteVAA_AssetMeta env cfg ctx v (tl (Payload v))
           else (Inl ErrUnknownPayloadType, ctx)"
  obtain r0 c0 where d: "?d = (r0, c0)" by (cases ?d)
  have fr: "config c0 = config ctx \<and> chainRegistration c0 = chainRegistration ctx
        \<and> replayProtection c0 = replayProtection ctx"
    using d Transfer_stores[of env cfg ctx creator "tl (Payload v)" r0 c0]
      AssetMeta_stores[of env cfg ctx v "tl (Payload v)" r0 c0]
    by (auto split: if_splits)
  show ?thesis
    using assms d fr
    by (auto simp: ExecuteVAA_verified_def Let_def SetReplayProtection_def
        split: option.splits if_splits sum.splits)
qed

lemma ExecuteVAA_stores:
  assumes "ExecuteVAA env ctx msg = (r, ctx')"
  shows "config ctx' = config ctx \<and> chainRegistration ctx' = chainRegistration ctx
    \<and> (case r of Inl e \<Rightarrow> replayProtection ctx' = replayProtection ctx
         | Inr u \<Rightarrow> (\<exists>v. ParseVAA env (Vaa msg) = Inr v \<and> replayProtection ctx' =
              (replayProtection ctx)(HexDigest v \<mapsto> \<lparr>rp_Index = HexDigest v\<rparr>)))"
  using assms
  by (auto simp: ExecuteVAA_def split: sum.splits option.splits dest!: verified_stores)

lemma commit_stores:
  "config (commit env ctx msg) = config ctx \<and>
   dom (replayProtection ctx) \<subseteq> dom (replayProtection (commit env ctx msg))"
proof (cases "ExecuteVAA env ctx msg")
  case (Pair r ctx')
  then show ?thesis
    using ExecuteVAA_stores[OF Pair]
    by (cases r) (auto simp: commit_def)
qed

lemma foldl_commit_stores:
  "config (foldl (commit env) ctx msgs) = config ctx \<and>
   dom (replayProtection ctx) \<subseteq> dom (replayProtection (foldl (commit env) ctx msgs))"
proof (induction msgs arbitrary: ctx)
  case Nil
  then show ?case by simp
next
  case (Cons m ms)
  have a: "config (foldl (commit env) (commit env ctx m) ms) = config (commit env ctx m)"
    and b: "dom (replayProtection (commit env ctx m))
              \<subseteq> dom (replayProtection (foldl (commit env) (commit env ctx m) ms))"
    using Cons.IH[of "commit env ctx m"] by simp_all
  have c: "config (commit env ctx m) = config ctx"
    and d: "dom (replayProtection ctx) \<subseteq> dom (replayProtection (commit env ctx m))"
    using commit_stores[of env ctx m] by simp_all
  show ?case
    using a c order_trans[OF d b] by simp
qed

section \<open>The two cases of the switch\<close>

lemma ExecuteVAA_Transfer_msg:
  assumes "reachesSwitch env ctx msg v cfg" and "Payload v = 1 # body"
  shows "ExecuteVAA env ctx msg =
     (case ExecuteVAA_Transfer env cfg ctx (Creator msg) body of
        (Inl e, ctx') \<Rightarrow> (Inl e, ctx')
      | (Inr u, ctx') \<Rightarrow> (Inr (), SetReplayProtection ctx' \<lparr>rp_Index = HexDigest v\<rparr>))"
proof -
  from assms(1) obtain reg where
    "ParseVAA env (Vaa msg) = Inr v" "VerifyVAA env ctx v = None" "GetConfig ctx = Some cfg"
    "GetReplayProtection ctx (HexDigest v) = None"
    "GetChainRegistration ctx (ucast (EmitterChain v)) = Some reg"
    "EmitterAddress v = cr_EmitterAddress reg"
    by (auto simp: reachesSwitch_def split: option.splits)
  then show ?thesis
    using assms(2) by (simp add: ExecuteVAA_unfold verified_Transfer)
qed

lemma ExecuteVAA_AssetMeta_msg:
  assumes "reachesSwitch env ctx msg v cfg" and "Payload v = 2 # body"
  shows "ExecuteVAA env ctx msg =
     (case ExecuteVAA_AssetMeta env cfg ctx v body of
        (Inl e, ctx') \<Rightarrow> (Inl e, ctx')
      | (Inr u, ctx') \<Rightarrow> (Inr (), SetReplayProtection ctx' \<lparr>rp_Index = HexDigest v\<rparr>))"
proof -
  from assms(1) obtain reg where
    "ParseVAA env (Vaa msg) = Inr v" "VerifyVAA env ctx v = None" "GetConfig ctx = Some cfg"
    "GetReplayProtection ctx (HexDigest v) = None"
    "GetChainRegistration ctx (ucast (EmitterChain v)) = Some reg"
    "EmitterAddress v = cr_EmitterAddress reg"
    by (auto simp: reachesSwitch_def split: option.splits)
  then show ?thesis
    using assms(2) by (simp add: ExecuteVAA_unfold verified_AssetMeta)
qed

lemma transferEffects_events:
  assumes "transferEffects env ctx creator tc ta to ident w amount fee = (Inr u, ctx')"
  shows "\<exists>ev. events ctx' = events ctx @ [TransferReceived ev] \<and> tr_LocalDenom ev = ident"
  using assms
  by (auto simp: transferEffects_def Let_def split: sum.splits option.splits if_splits)

lemma transferEffects_errors:
  assumes "transferEffects env ctx creator tc ta to ident w amount fee = (Inl e, ctx')"
  shows "(\<exists>x. e = Propagated x) \<or> (\<exists>c x. e = FailedSendFees c x)
       \<or> ((\<exists>c x. e = FailedMintCoins c x) \<and> ctx' = ctx)"
  using assms
  by (auto simp: transferEffects_def Let_def split: sum.splits option.splits if_splits)

lemma Transfer_amounts:
  fixes body :: bytes
  defines "tokenChain \<equiv> BigEndian_Uint16 (take 2 (drop 64 body))"
    and "tokenAddress \<equiv> take 32 (drop 32 body)"
  assumes "length body = 132"
    and "ucast (BigEndian_Uint16 (take 2 (drop 98 body))) = ChainId cfg"
    and "GetDenomMetaData ctx (fst (transferIdentifier env cfg tokenChain tokenAddress)) = Some meta"
  shows "ExecuteVAA_Transfer env cfg ctx creator body =
     (case transferAmounts env (fst (transferIdentifier env cfg tokenChain tokenAddress)) meta
             (SetBytes (take 32 body)) (SetBytes (take 32 (drop 100 body))) of
        Inl e \<Rightarrow> (Inl e, ctx)
      | Inr (amount, fee) \<Rightarrow>
          transferEffects env ctx creator tokenChain tokenAddress (take 20 (drop 78 body))
            (fst (transferIdentifier env cfg tokenChain tokenAddress))
            (snd (transferIdentifier env cfg tokenChain tokenAddress)) amount fee)"
  using assms(3,4,5) unfolding tokenChain_def tokenAddress_def
  by (simp add: ExecuteVAA_Transfer_def Let_def)

lemma rawCoin_valid:
  assumes "rawCoin env identifier x = Inr c"
  shows "Validate env c = None"
  using assms
  by (auto simp: rawCoin_def NewCoin_def NewIntFromBigInt_def Let_def
      split: if_splits option.splits)

lemma transferEffects_not_invalid:
  assumes "transferEffects env ctx creator tc ta to ident w amount fee = (Inl e, ctx')"
  shows "e \<noteq> ErrInvalidAmount x \<and> e \<noteq> ErrInvalidFee x"
  using transferEffects_errors[OF assms] by auto

section \<open>Registrations\<close>

lemma AssetMeta_rollback_mono:
  assumes "ExecuteVAA_AssetMeta env cfg ctx v body = (r, ctx')"
    and "coinMetaRollbackProtection ctx i = Some x"
  shows "\<exists>x'. coinMetaRollbackProtection ctx' i = Some x'
              \<and> LastUpdateSequence x \<le> LastUpdateSequence x'"
  using assms
  by (auto simp: ExecuteVAA_AssetMeta_def Let_def SetDenomMetaData_def
        SetCoinMetaRollbackProtection_def GetCoinMetaRollbackProtection_def
      split: option.splits if_splits)

lemma ExecuteVAA_rollback_mono:
  assumes "ExecuteVAA env ctx msg = (r, ctx')"
    and "coinMetaRollbackProtection ctx i = Some x"
  shows "\<exists>x'. coinMetaRollbackProtection ctx' i = Some x'
              \<and> LastUpdateSequence x \<le> LastUpdateSequence x'"
proof (cases "\<exists>v cfg. ParseVAA env (Vaa msg) = Inr v \<and> VerifyVAA env ctx v = None
          \<and> GetConfig ctx = Some cfg")
  case False
  then have "ctx' = ctx"
    using assms(1) by (auto simp: ExecuteVAA_def split: sum.splits option.splits)
  then show ?thesis using assms(2) by simp
next
  case True
  then obtain v cfg where p: "ParseVAA env (Vaa msg) = Inr v" "VerifyVAA env ctx v = None"
    "GetConfig ctx = Some cfg" by blast
  have run: "ExecuteVAA_verified env cfg ctx v (Creator msg) = (r, ctx')"
    using assms(1) ExecuteVAA_unfold[OF p] by simp
  let ?d = "if hd (Payload v) = PayloadIDTransfer
           then ExecuteVAA_Transfer env cfg ctx (Creator msg) (tl (Payload v))
           else if hd (Payload v) = PayloadIDAssetMeta
           then ExecuteVAA_AssetMeta env cfg ctx v (tl (Payload v))
           else (Inl ErrUnknownPayloadType, ctx)"
  obtain r0 c0 where d: "?d = (r0, c0)" by (cases ?d)
  have m0: "\<exists>x'. coinMetaRollbackProtection c0 i = Some x'
              \<and> LastUpdateSequence x \<le> LastUpdateSequence x'"
    using d assms(2) Transfer_stores[of env cfg ctx "Creator msg" "tl (Payload v)" r0 c0]
      AssetMeta_rollback_mono[of env cfg ctx v "tl (Payload v)" r0 c0 i x]
    by (auto split: if_splits)
  have "ctx' = ctx \<or> coinMetaRollbackProtection ctx' = coinMetaRollbackProtection c0"
    using run d
    by (auto simp: ExecuteVAA_verified_def Let_def SetReplayProtection_def
        split: option.splits if_splits sum.splits)
  then show ?thesis using m0 assms(2) by auto
qed

lemma commit_rollback_mono:
  assumes "coinMetaRollbackProtection ctx i = Some x"
  shows "\<exists>x'. coinMetaRollbackProtection (commit env ctx msg) i = Some x'
              \<and> LastUpdateSequence x \<le> LastUpdateSequence x'"
proof (cases "ExecuteVAA env ctx msg")
  case (Pair r ctx')
  from ExecuteVAA_rollback_mono[OF Pair assms] show ?thesis
    using assms Pair by (cases r) (auto simp: commit_def)
qed

lemma foldl_commit_rollback_mono:
  assumes "coinMetaRollbackProtection ctx i = Some x"
  shows "\<exists>x'. coinMetaRollbackProtection (foldl (commit env) ctx msgs) i = Some x'
              \<and> LastUpdateSequence x \<le> LastUpdateSequence x'"
  using assms
proof (induction msgs arbitrary: ctx x)
  case Nil
  then show ?case by simp
next
  case (Cons m ms)
  from commit_rollback_mono[OF Cons.prems, of env m]
  obtain y where y: "coinMetaRollbackProtection (commit env ctx m) i = Some y"
    "LastUpdateSequence x \<le> LastUpdateSequence y" by blast
  from Cons.IH[OF y(1)] obtain z where
    "coinMetaRollbackProtection (foldl (commit env) (commit env ctx m) ms) i = Some z"
    "LastUpdateSequence y \<le> LastUpdateSequence z" by blast
  then show ?case using y(2) by auto
qed

lemma AssetMeta_checked:
  fixes body :: bytes
  defines "tokenAddress \<equiv> take 32 body"
    and "tokenChain \<equiv> BigEndian_Uint16 (take 2 (drop 32 body))"
  assumes "length body = 99"
    and "ucast tokenChain \<noteq> ChainId cfg"
    and "\<not> IsWORMToken env tokenChain tokenAddress"
    and "GetChainRegistration ctx (ucast tokenChain) \<noteq> None"
  shows "ExecuteVAA_AssetMeta env cfg ctx v body =
    (let identifier = GetWrappedCoinIdentifier env tokenChain tokenAddress;
         baseDenom = str ''b'' @ identifier;
         decimals = body ! 34;
         symbol = Trim (take 32 (drop 35 body)) 0;
         name = Trim (take 32 (drop 67 body)) 0
     in
     if (case GetCoinMetaRollbackProtection ctx identifier of
           None \<Rightarrow> False
         | Some rollBackProtection \<Rightarrow> LastUpdateSequence rollBackProtection \<ge> Sequence v)
     then (Inl ErrAssetMetaRollback, ctx) else
     case (case GetDenomMetaData ctx baseDenom of
             None \<Rightarrow> None
           | Some meta \<Rightarrow>
               if Display meta \<noteq> identifier
               then Some (MismatchedDisplayDenom (Display meta) identifier)
               else if changesDecimals identifier (ucast decimals) (DenomUnits meta)
               then Some ErrChangeDecimals
               else None) of
       Some e \<Rightarrow> (Inl e, ctx)
     | None \<Rightarrow>
    (let ctx1 = SetDenomMetaData ctx
                  \<lparr>Description = str ''Portal wrapped asset from chain '' @ decimal (unat tokenChain)
                                   @ str '' with address '' @ hex tokenAddress,
                   DenomUnits = [\<lparr>du_Denom = baseDenom, Exponent = 0\<rparr>,
                                 \<lparr>du_Denom = identifier, Exponent = ucast decimals\<rparr>],
                   Base = baseDenom,
                   Display = identifier,
                   Name = name,
                   Symbol = symbol\<rparr>;
         ctx2 = SetCoinMetaRollbackProtection ctx1
                  \<lparr>Index = identifier, LastUpdateSequence = Sequence v\<rparr>;
         ev = AssetRegistrationUpdate
                \<lparr>ar_TokenChain = ucast tokenChain, ar_TokenAddress = tokenAddress,
                 ar_Name = name, ar_Symbol = symbol, ar_Decimals = ucast decimals\<rparr>
     in
     case EmitTypedEvent env ev of
       Some err \<Rightarrow> (Inl (Propagated err), ctx2)
     | None \<Rightarrow> (Inr (), ctx2\<lparr>events := events ctx2 @ [ev]\<rparr>)))"
  using assms(3,4,5,6) unfolding tokenAddress_def tokenChain_def
  by (auto simp: ExecuteVAA_AssetMeta_def Let_def)





section \<open>Where metadata is written and read\<close>

lemma AssetMeta_base:
  assumes "ExecuteVAA_AssetMeta env cfg ctx v body = (Inr u, ctx')"
    and "key = str ''b'' @ GetWrappedCoinIdentifier env
           (BigEndian_Uint16 (take 2 (drop 32 body))) (take 32 body)"
  shows "\<exists>m. denomMetaData ctx' key = Some m \<and> Base m = key"
  using assms
  by (auto simp: ExecuteVAA_AssetMeta_def Let_def SetDenomMetaData_def
        SetCoinMetaRollbackProtection_def split: option.splits if_splits)

lemma AssetMeta_metadata_changes:
  assumes "ExecuteVAA_AssetMeta env cfg ctx v body = (r, ctx')"
    and "denomMetaData ctx' k \<noteq> denomMetaData ctx k"
  shows "k = str ''b'' @ GetWrappedCoinIdentifier env
           (BigEndian_Uint16 (take 2 (drop 32 body))) (take 32 body)"
  using assms
  by (auto simp: ExecuteVAA_AssetMeta_def Let_def SetDenomMetaData_def
        SetCoinMetaRollbackProtection_def split: option.splits if_splits)

lemma ExecuteVAA_metadata_changes:
  assumes "denomMetaData (snd (ExecuteVAA env ctx msg)) k \<noteq> denomMetaData ctx k"
  shows "\<exists>v body. ParseVAA env (Vaa msg) = Inr v \<and> Payload v = 2 # body
      \<and> k = str ''b'' @ GetWrappedCoinIdentifier env
           (BigEndian_Uint16 (take 2 (drop 32 body))) (take 32 body)"
proof (cases "\<exists>v cfg. ParseVAA env (Vaa msg) = Inr v \<and> VerifyVAA env ctx v = None
          \<and> GetConfig ctx = Some cfg")
  case False
  then have "snd (ExecuteVAA env ctx msg) = ctx"
    by (auto simp: ExecuteVAA_def split: sum.splits option.splits)
  then show ?thesis using assms by simp
next
  case True
  then obtain v cfg where p: "ParseVAA env (Vaa msg) = Inr v" "VerifyVAA env ctx v = None"
    "GetConfig ctx = Some cfg" by blast
  note run = ExecuteVAA_unfold[OF p]
  let ?d = "if hd (Payload v) = PayloadIDTransfer
           then ExecuteVAA_Transfer env cfg ctx (Creator msg) (tl (Payload v))
           else if hd (Payload v) = PayloadIDAssetMeta
           then ExecuteVAA_AssetMeta env cfg ctx v (tl (Payload v))
           else (Inl ErrUnknownPayloadType, ctx)"
  obtain r0 c0 where d: "?d = (r0, c0)" by (cases ?d)
  have st: "snd (ExecuteVAA env ctx msg) = ctx
      \<or> Payload v \<noteq> [] \<and> denomMetaData (snd (ExecuteVAA env ctx msg)) = denomMetaData c0"
    unfolding run using d
    by (auto simp: ExecuteVAA_verified_def Let_def SetReplayProtection_def
        split: option.splits if_splits sum.splits)
  with assms have ne: "Payload v \<noteq> []" and ch: "denomMetaData c0 k \<noteq> denomMetaData ctx k"
    by auto
  have tag: "hd (Payload v) = PayloadIDAssetMeta \<and> hd (Payload v) \<noteq> PayloadIDTransfer"
    using d ch Transfer_stores[of env cfg ctx "Creator msg" "tl (Payload v)" r0 c0]
    by (auto split: if_splits)
  then have am: "ExecuteVAA_AssetMeta env cfg ctx v (tl (Payload v)) = (r0, c0)"
    using d by (auto split: if_splits)
  have pl: "Payload v = 2 # tl (Payload v)"
    using ne tag by (cases "Payload v") (auto simp: PayloadIDAssetMeta_def)
  show ?thesis
    using p(1) pl AssetMeta_metadata_changes[OF am ch] by blast
qed

lemma transferAmounts_errors:
  assumes "transferAmounts env identifier meta a f = Inl e"
  shows "e \<noteq> ErrAssetNotRegistered"
  using assms
  by (auto simp: transferAmounts_def Let_def split: option.splits sum.splits if_splits)

section \<open>Failures and the writes before them\<close>

lemma AssetMeta_errors:
  assumes "ExecuteVAA_AssetMeta env cfg ctx v body = (Inl e, ctx')"
  shows "ctx' = ctx \<or> (\<exists>x. e = Propagated x)"
  using assms
  by (auto simp: ExecuteVAA_AssetMeta_def Let_def split: option.splits if_splits)

lemma Transfer_errors:
  assumes "ExecuteVAA_Transfer env cfg ctx creator body = (Inl e, ctx')"
  shows "ctx' = ctx \<or> (\<exists>x. e = Propagated x) \<or> (\<exists>c x. e = FailedSendFees c x)"
proof -
  have "ctx' = ctx \<or> (\<exists>tc ta to ident w amount fee.
      transferEffects env ctx creator tc ta to ident w amount fee = (Inl e, ctx'))"
    using assms
    by (auto simp: ExecuteVAA_Transfer_def Let_def split: option.splits sum.splits if_splits prod.splits)
  then show ?thesis using transferEffects_errors by blast
qed

lemma verified_errors:
  assumes "ExecuteVAA_verified env cfg ctx v creator = (Inl e, ctx')"
  shows "ctx' = ctx \<or> (\<exists>x. e = Propagated x) \<or> (\<exists>c x. e = FailedSendFees c x)"
proof -
  let ?d = "if hd (Payload v) = PayloadIDTransfer
           then ExecuteVAA_Transfer env cfg ctx creator (tl (Payload v))
           else if hd (Payload v) = PayloadIDAssetMeta
           then ExecuteVAA_AssetMeta env cfg ctx v (tl (Payload v))
           else (Inl ErrUnknownPayloadType, ctx)"
  have "ctx' = ctx \<or> ?d = (Inl e, ctx')"
    using assms
    by (auto simp: ExecuteVAA_verified_def Let_def split: option.splits if_splits sum.splits prod.splits)
  then show ?thesis
    using Transfer_errors[of env cfg ctx creator "tl (Payload v)" e ctx']
      AssetMeta_errors[of env cfg ctx v "tl (Payload v)" e ctx']
    by (auto split: if_splits)
qed

section \<open>The bytes a transfer reads\<close>

lemma reserved_slices:
  fixes body1 body2 :: bytes
  assumes "take 66 body1 = take 66 body2" and "drop 78 body1 = drop 78 body2"
  shows "take 32 body1 = take 32 body2"
    and "take 32 (drop 32 body1) = take 32 (drop 32 body2)"
    and "take 2 (drop 64 body1) = take 2 (drop 64 body2)"
    and "take 20 (drop 78 body1) = take 20 (drop 78 body2)"
    and "take 2 (drop 98 body1) = take 2 (drop 98 body2)"
    and "take 32 (drop 100 body1) = take 32 (drop 100 body2)"
proof -
  have "take 32 (take 66 body1) = take 32 (take 66 body2)" using assms(1) by simp
  then show "take 32 body1 = take 32 body2" by simp
  have "take 32 (drop 32 (take 66 body1)) = take 32 (drop 32 (take 66 body2))"
    using assms(1) by simp
  then show "take 32 (drop 32 body1) = take 32 (drop 32 body2)" by (simp add: drop_take)
  have "drop 64 (take 66 body1) = drop 64 (take 66 body2)" using assms(1) by simp
  then show "take 2 (drop 64 body1) = take 2 (drop 64 body2)" by (simp add: drop_take)
  show "take 20 (drop 78 body1) = take 20 (drop 78 body2)" using assms(2) by simp
  have "take 2 (drop 20 (drop 78 body1)) = take 2 (drop 20 (drop 78 body2))"
    using assms(2) by simp
  then show "take 2 (drop 98 body1) = take 2 (drop 98 body2)" by simp
  have "take 32 (drop 22 (drop 78 body1)) = take 32 (drop 22 (drop 78 body2))"
    using assms(2) by simp
  then show "take 32 (drop 100 body1) = take 32 (drop 100 body2)" by simp
qed

lemma Transfer_reserved:
  assumes "length body1 = 132" and "length body2 = 132"
    and "take 66 body1 = take 66 body2" and "drop 78 body1 = drop 78 body2"
  shows "ExecuteVAA_Transfer env cfg ctx creator body1 = ExecuteVAA_Transfer env cfg ctx creator body2"
  unfolding ExecuteVAA_Transfer_def reserved_slices[OF assms(3,4)] assms(1,2) ..

lemma verified_reserved:
  assumes "Payload v1 = PayloadIDTransfer # body1" and "Payload v2 = PayloadIDTransfer # body2"
    and "length body1 = 132" and "length body2 = 132"
    and "take 66 body1 = take 66 body2" and "drop 78 body1 = drop 78 body2"
    and "EmitterChain v1 = EmitterChain v2" and "EmitterAddress v1 = EmitterAddress v2"
    and "(GetReplayProtection ctx (HexDigest v1) = None)
          = (GetReplayProtection ctx (HexDigest v2) = None)"
    and "ExecuteVAA_verified env cfg ctx v1 creator = (r1, c1)"
    and "ExecuteVAA_verified env cfg ctx v2 creator = (r2, c2)"
  shows "r1 = r2 \<and> c1\<lparr>replayProtection := replayProtection ctx\<rparr>
                   = c2\<lparr>replayProtection := replayProtection ctx\<rparr>"
proof -
  obtain r c where rc: "ExecuteVAA_Transfer env cfg ctx creator body1 = (r, c)"
    by (cases "ExecuteVAA_Transfer env cfg ctx creator body1")
  then have rc2: "ExecuteVAA_Transfer env cfg ctx creator body2 = (r, c)"
    using Transfer_reserved[OF assms(3-6), of env cfg ctx creator] by simp
  have rp: "replayProtection c = replayProtection ctx"
    using Transfer_stores[OF rc] by simp
  show ?thesis
  proof (cases "GetReplayProtection ctx (HexDigest v1)")
    case (Some x)
    then have "GetReplayProtection ctx (HexDigest v2) \<noteq> None" using assms(9) by simp
    then show ?thesis
      using Some assms(10,11) by (auto simp: ExecuteVAA_verified_def)
  next
    case None
    then have n2: "GetReplayProtection ctx (HexDigest v2) = None" using assms(9) by simp
    show ?thesis
      using None n2 assms(1,2,7,8,10,11) rc rc2 rp
      by (cases r)
         (auto simp: ExecuteVAA_verified_def Let_def SetReplayProtection_def
            split: option.splits if_splits)
  qed
qed

section \<open>Replay protection\<close>

text \<open>
  C1. Once a call for a message with digest \<open>d\<close> has succeeded, every later call (after
  any number of committed calls in between) for a verified message with the digest \<open>d\<close>
  fails with \<open>ErrVAAAlreadyExecuted\<close> and changes nothing. A call that fails, from any
  state and for any message, leaves the replay store as it found it, so that its digest
  can be submitted again.
\<close>

theorem C1_replay:
  assumes "ParseVAA env (Vaa msg) = Inr v"
    and "fst (ExecuteVAA env ctx msg) = Inr ()"
    and "ctx2 = foldl (commit env) (snd (ExecuteVAA env ctx msg)) msgs"
    and "ParseVAA env (Vaa msg2) = Inr v2"
    and "HexDigest v2 = HexDigest v"
    and "VerifyVAA env ctx2 v2 = None"
  shows "ExecuteVAA env ctx2 msg2 = (Inl ErrVAAAlreadyExecuted, ctx2)
     \<and> (\<forall>ctx3 msg3 e. fst (ExecuteVAA env ctx3 msg3) = Inl e \<longrightarrow>
           replayProtection (snd (ExecuteVAA env ctx3 msg3)) = replayProtection ctx3)"
proof
  obtain ctx1 where run: "ExecuteVAA env ctx msg = (Inr (), ctx1)"
    using assms(2) by (cases "ExecuteVAA env ctx msg") auto
  from ExecuteVAA_stores[OF run] assms(1)
  have c1: "config ctx1 = config ctx" and r1: "HexDigest v \<in> dom (replayProtection ctx1)"
    by auto
  have "config ctx \<noteq> None"
    using run assms(1) by (auto simp: ExecuteVAA_def GetConfig_def split: option.splits)
  then obtain cfg where cfg: "config ctx = Some cfg" by auto
  have c2: "config ctx2 = Some cfg" and r2: "HexDigest v \<in> dom (replayProtection ctx2)"
    using foldl_commit_stores[of env ctx1 msgs] assms(3) run c1 r1 cfg by auto
  show "ExecuteVAA env ctx2 msg2 = (Inl ErrVAAAlreadyExecuted, ctx2)"
    using assms(4,5,6) c2 r2
    by (auto simp: ExecuteVAA_def GetConfig_def ExecuteVAA_verified_def GetReplayProtection_def)
next
  show "\<forall>ctx3 msg3 e. fst (ExecuteVAA env ctx3 msg3) = Inl e \<longrightarrow>
           replayProtection (snd (ExecuteVAA env ctx3 msg3)) = replayProtection ctx3"
  proof (intro allI impI)
    fix ctx3 :: "'a state" and msg3 e
    assume f: "fst (ExecuteVAA env ctx3 msg3) = Inl e"
    obtain r c where rc: "ExecuteVAA env ctx3 msg3 = (r, c)" by (cases "ExecuteVAA env ctx3 msg3")
    from ExecuteVAA_stores[OF rc] f rc
    show "replayProtection (snd (ExecuteVAA env ctx3 msg3)) = replayProtection ctx3" by auto
  qed
qed

theorem C1_replay_witness:
  "fst (ExecuteVAA (memEnv wire) genesis (submit 2)) = Inr ()
   \<and> ExecuteVAA (memEnv wire)
        (foldl (commit (memEnv wire)) (snd (ExecuteVAA (memEnv wire) genesis (submit 2))) [submit 5])
        (submit 4)
      = (Inl ErrVAAAlreadyExecuted,
         foldl (commit (memEnv wire)) (snd (ExecuteVAA (memEnv wire) genesis (submit 2))) [submit 5])
   \<and> fst (ExecuteVAA (memEnv wire) genesis (submit 1))
      = Inl (FailedSendFees \<lparr>Denom = str ''uatom'', Amount = 3\<rparr> ''insufficient funds'')
   \<and> replayProtection (snd (ExecuteVAA (memEnv wire) genesis (submit 1)))
      = replayProtection genesis"
proof -
  let ?v2 = "fromEth ''d2'' 2
     (transferPayload [1, 0xF4] (str ''uatom'') [0x0C, 0x20] (replicate 12 0) [])"
  let ?v4 = "fromEth ''d2'' 2
     (transferPayload [1, 0xF4] (str ''uatom'') [0x0C, 0x20] (replicate 12 0xFF) [])"
  have p2: "ParseVAA (memEnv wire) (Vaa (submit 2)) = Inr ?v2" by code_simp
  have ok: "fst (ExecuteVAA (memEnv wire) genesis (submit 2)) = Inr ()" by code_simp
  have p4: "ParseVAA (memEnv wire) (Vaa (submit 4)) = Inr ?v4" by code_simp
  have d: "HexDigest ?v4 = HexDigest ?v2" by (simp add: fromEth_def)
  have ver: "VerifyVAA (memEnv wire) ctx2 ?v4 = None" for ctx2 by (simp add: memEnv_def)
  have fail: "fst (ExecuteVAA (memEnv wire) genesis (submit 1))
      = Inl (FailedSendFees \<lparr>Denom = str ''uatom'', Amount = 3\<rparr> ''insufficient funds'')"
    by code_simp
  from C1_replay[OF p2 ok refl p4 d ver] fail ok show ?thesis by blast
qed

section \<open>Emitter authentication\<close>

text \<open>
  C6. A verified message that passes the replay check fails with
  \<open>ErrUnregisteredChain\<close> when no chain is registered for its emitter chain, and with
  \<open>ErrUnregisteredEmitter\<close> when the registered emitter address is not, byte for byte,
  the message's emitter address. Neither changes the state.
\<close>

theorem C6_emitter:
  assumes "ParseVAA env (Vaa msg) = Inr v"
    and "VerifyVAA env ctx v = None"
    and "GetConfig ctx = Some cfg"
    and "GetReplayProtection ctx (HexDigest v) = None"
  shows "(GetChainRegistration ctx (ucast (EmitterChain v)) = None \<longrightarrow>
            ExecuteVAA env ctx msg = (Inl ErrUnregisteredChain, ctx))
       \<and> (\<forall>registration. GetChainRegistration ctx (ucast (EmitterChain v)) = Some registration
              \<and> cr_EmitterAddress registration \<noteq> EmitterAddress v \<longrightarrow>
            ExecuteVAA env ctx msg = (Inl ErrUnregisteredEmitter, ctx))"
  using assms
  by (auto simp: ExecuteVAA_def ExecuteVAA_verified_def)

theorem C6_emitter_witness:
  "GetReplayProtection genesis (str ''d13'') = None
   \<and> GetChainRegistration genesis 5 = None
   \<and> ExecuteVAA (memEnv wire) genesis (submit 13) = (Inl ErrUnregisteredChain, genesis)
   \<and> GetReplayProtection genesis (str ''d14'') = None
   \<and> GetChainRegistration genesis 2 = Some \<lparr>ChainID = 2, cr_EmitterAddress = ethEmitter\<rparr>
   \<and> ethEmitter \<noteq> leftPad 32 (replicate 20 0xEF)
   \<and> ExecuteVAA (memEnv wire) genesis (submit 14) = (Inl ErrUnregisteredEmitter, genesis)"
proof -
  let ?v13 = "(fromEth ''d13'' 13 [1])\<lparr>EmitterChain := 5\<rparr>"
  let ?v14 = "(fromEth ''d14'' 14 [1])\<lparr>EmitterAddress := leftPad 32 (replicate 20 0xEF)\<rparr>"
  have p13: "ParseVAA (memEnv wire) (Vaa (submit 13)) = Inr ?v13" by code_simp
  have p14: "ParseVAA (memEnv wire) (Vaa (submit 14)) = Inr ?v14" by code_simp
  have ver: "VerifyVAA (memEnv wire) genesis v = None" for v by (simp add: memEnv_def)
  have cfg: "GetConfig genesis = Some localConfig" by (simp add: GetConfig_def genesis_def)
  have r13: "GetReplayProtection genesis (HexDigest ?v13) = None"
    and r14: "GetReplayProtection genesis (HexDigest ?v14) = None"
    by (simp_all add: GetReplayProtection_def genesis_def)
  have d13: "HexDigest ?v13 = str ''d13''" and d14: "HexDigest ?v14 = str ''d14''"
    by (simp_all add: fromEth_def)
  have c13: "GetChainRegistration genesis (ucast (EmitterChain ?v13)) = None" by code_simp
  have c14: "GetChainRegistration genesis (ucast (EmitterChain ?v14))
      = Some \<lparr>ChainID = 2, cr_EmitterAddress = ethEmitter\<rparr>" by code_simp
  have ne: "cr_EmitterAddress \<lparr>ChainID = 2, cr_EmitterAddress = ethEmitter\<rparr> \<noteq> EmitterAddress ?v14"
    by code_simp
  have a: "ExecuteVAA (memEnv wire) genesis (submit 13) = (Inl ErrUnregisteredChain, genesis)"
    using C6_emitter[OF p13 ver cfg r13] c13 by blast
  have b: "ExecuteVAA (memEnv wire) genesis (submit 14) = (Inl ErrUnregisteredEmitter, genesis)"
    using C6_emitter[OF p14 ver cfg r14] c14 ne by blast
  have h1: "GetReplayProtection genesis (str ''d13'') = None" using r13 d13 by simp
  have h2: "GetChainRegistration genesis 5 = None" by code_simp
  have h3: "GetReplayProtection genesis (str ''d14'') = None" using r14 d14 by simp
  have h4: "GetChainRegistration genesis 2 = Some \<lparr>ChainID = 2, cr_EmitterAddress = ethEmitter\<rparr>"
    by code_simp
  have h5: "ethEmitter \<noteq> leftPad 32 (replicate 20 0xEF)" by code_simp
  show ?thesis using a b h1 h2 h3 h4 h5 by (intro conjI)
qed

section \<open>The denomination of a transfer\<close>

text \<open>
  C3, as the source has it. For a transfer of a token of the local chain that is not the
  system's own token, the denomination is the token address with its leading NUL bytes
  stripped (\<^verbatim>\<open>strings.TrimLeft\<close>, line 99) and the wrapped flag is false: the metadata is
  looked up under that name, its absence is \<open>ErrNoDenomMetadata\<close>, and the event of a
  successful transfer carries it as the local denomination.
\<close>

theorem C3_native_identifier:
  assumes "reachesSwitch env ctx msg v cfg"
    and "Payload v = 1 # body"
    and "length body = 132"
    and "ucast (BigEndian_Uint16 (take 2 (drop 98 body))) = ChainId cfg"
    and "tokenAddress = take 32 (drop 32 body)"
    and "tokenChain = BigEndian_Uint16 (take 2 (drop 64 body))"
    and "\<not> IsWORMToken env tokenChain tokenAddress"
    and "ucast tokenChain = ChainId cfg"
  shows "transferIdentifier env cfg tokenChain tokenAddress = (TrimLeft tokenAddress 0, False)
    \<and> (GetDenomMetaData ctx (TrimLeft tokenAddress 0) = None \<longrightarrow>
         ExecuteVAA env ctx msg = (Inl ErrNoDenomMetadata, ctx))
    \<and> (fst (ExecuteVAA env ctx msg) = Inr () \<longrightarrow>
         (\<exists>ev. events (snd (ExecuteVAA env ctx msg)) = events ctx @ [TransferReceived ev]
               \<and> tr_LocalDenom ev = TrimLeft tokenAddress 0))"
proof (intro conjI impI)
  show ti: "transferIdentifier env cfg tokenChain tokenAddress = (TrimLeft tokenAddress 0, False)"
    using assms(7,8) by (simp add: transferIdentifier_def)
  note run = ExecuteVAA_Transfer_msg[OF assms(1,2)]
  {
    assume "GetDenomMetaData ctx (TrimLeft tokenAddress 0) = None"
    then have "ExecuteVAA_Transfer env cfg ctx (Creator msg) body = (Inl ErrNoDenomMetadata, ctx)"
      using assms(3,4) ti assms(5,6)
      by (simp add: ExecuteVAA_Transfer_def Let_def)
    then show "ExecuteVAA env ctx msg = (Inl ErrNoDenomMetadata, ctx)"
      using run by simp
  }
  {
    assume ok: "fst (ExecuteVAA env ctx msg) = Inr ()"
    obtain r c where rc: "ExecuteVAA_Transfer env cfg ctx (Creator msg) body = (r, c)"
      by (cases "ExecuteVAA_Transfer env cfg ctx (Creator msg) body")
    with ok run obtain u where r: "r = Inr u" by (cases r) auto
    from rc r have "\<exists>ev. events c = events ctx @ [TransferReceived ev]
        \<and> tr_LocalDenom ev = TrimLeft tokenAddress 0"
      using assms(3,4) ti assms(5,6)
      by (auto simp: ExecuteVAA_Transfer_def Let_def split: option.splits sum.splits if_splits prod.splits
          dest!: transferEffects_events)
    then show "\<exists>ev. events (snd (ExecuteVAA env ctx msg)) = events ctx @ [TransferReceived ev]
               \<and> tr_LocalDenom ev = TrimLeft tokenAddress 0"
      using run rc r by (simp add: SetReplayProtection_def)
  }
qed

theorem C3_native_identifier_witness:
  "reachesSwitch (memEnv wire) genesis (submit 2)
     (fromEth ''d2'' 2 (transferPayload [1, 0xF4] (str ''uatom'') [0x0C, 0x20] (replicate 12 0) []))
     localConfig
   \<and> \<not> IsWORMToken (memEnv wire) 3104 (leftPad 32 (str ''uatom''))
   \<and> transferIdentifier (memEnv wire) localConfig 3104 (leftPad 32 (str ''uatom''))
       = (str ''uatom'', False)
   \<and> fst (ExecuteVAA (memEnv wire) genesis (submit 2)) = Inr ()
   \<and> (\<exists>ev. events (snd (ExecuteVAA (memEnv wire) genesis (submit 2)))
             = events genesis @ [TransferReceived ev]
           \<and> tr_LocalDenom ev = str ''uatom'')"
proof -
  let ?v = "fromEth ''d2'' 2
     (transferPayload [1, 0xF4] (str ''uatom'') [0x0C, 0x20] (replicate 12 0) [])"
  let ?body = "tl (Payload ?v)"
  have h1: "reachesSwitch (memEnv wire) genesis (submit 2) ?v localConfig" by code_simp
  have h2: "Payload ?v = 1 # ?body" by code_simp
  have h3: "length ?body = 132" by code_simp
  have h4: "ucast (BigEndian_Uint16 (take 2 (drop 98 ?body))) = ChainId localConfig" by code_simp
  have h5: "leftPad 32 (str ''uatom'') = take 32 (drop 32 ?body)" by code_simp
  have h6: "(3104 :: 16 word) = BigEndian_Uint16 (take 2 (drop 64 ?body))" by code_simp
  have h7: "\<not> IsWORMToken (memEnv wire) 3104 (leftPad 32 (str ''uatom''))" by code_simp
  have h8: "ucast (3104 :: 16 word) = ChainId localConfig" by code_simp
  have t: "TrimLeft (leftPad 32 (str ''uatom'')) 0 = str ''uatom''" by code_simp
  have ok: "fst (ExecuteVAA (memEnv wire) genesis (submit 2)) = Inr ()" by code_simp
  from C3_native_identifier[OF h1 h2 h3 h4 h5 h6 h7 h8] ok h1 h7
  show ?thesis unfolding t by blast
qed

text \<open>
  The claim as written strips trailing NUL bytes. The address of \<open>uatom\<close> is padded on
  the left: stripping on the right leaves all 32 bytes, while the source resolves the
  denomination \<open>uatom\<close> and emits it.
\<close>

theorem C3_trailing_counterexample:
  "\<not> IsWORMToken (memEnv wire) 3104 (leftPad 32 (str ''uatom''))
   \<and> ucast (3104 :: 16 word) = ChainId localConfig
   \<and> transferIdentifier (memEnv wire) localConfig 3104 (leftPad 32 (str ''uatom''))
       = (str ''uatom'', False)
   \<and> TrimRight (leftPad 32 (str ''uatom'')) 0 = replicate 27 0 @ str ''uatom''
   \<and> TrimRight (leftPad 32 (str ''uatom'')) 0 \<noteq> str ''uatom''
   \<and> fst (ExecuteVAA (memEnv wire) genesis (submit 2)) = Inr ()
   \<and> events (snd (ExecuteVAA (memEnv wire) genesis (submit 2)))
       = [TransferReceived
            \<lparr>tr_TokenChain = 3104, tr_TokenAddress = replicate 27 0 @ str ''uatom'',
             tr_To = recipient, tr_FeeRecipient = str ''relayer'', tr_Amount = 5, tr_Fee = 0,
             tr_LocalDenom = str ''uatom''\<rparr>]"
  by code_simp

section \<open>Amounts and fee\<close>

text \<open>
  C7. For a transfer whose raw amount and raw fee make coins (the constructor returns:
  they are within the bit limit and validate) and normalise to \<open>amount\<close> and \<open>fee\<close>,
  the call fails with \<open>ErrFeeTooHigh\<close> exactly when \<open>amount\<close> is strictly
  less than \<open>fee\<close> (an amount equal to the fee passes), and then it returns the state
  it was given: the check comes before any mint or send.
\<close>

theorem C7_fee_too_high:
  assumes "reachesSwitch env ctx msg v cfg"
    and "Payload v = 1 # body"
    and "length body = 132"
    and "ucast (BigEndian_Uint16 (take 2 (drop 98 body))) = ChainId cfg"
    and "identifier =
       fst (transferIdentifier env cfg (BigEndian_Uint16 (take 2 (drop 64 body))) (take 32 (drop 32 body)))"
    and "GetDenomMetaData ctx identifier = Some meta"
    and "rawCoin env identifier (SetBytes (take 32 body)) = Inr amt"
    and "Untruncate env amt meta = Inr amount"
    and "rawCoin env identifier (SetBytes (take 32 (drop 100 body))) = Inr f"
    and "Untruncate env f meta = Inr fee"
  shows "(fst (ExecuteVAA env ctx msg) = Inl ErrFeeTooHigh \<longleftrightarrow> Amount amount < Amount fee)
    \<and> (Amount amount < Amount fee \<longrightarrow> ExecuteVAA env ctx msg = (Inl ErrFeeTooHigh, ctx))"
proof -
  let ?tc = "BigEndian_Uint16 (take 2 (drop 64 body))"
  let ?ta = "take 32 (drop 32 body)"
  let ?te = "transferEffects env ctx (Creator msg) ?tc ?ta (take 20 (drop 78 body)) identifier
            (snd (transferIdentifier env cfg ?tc ?ta)) amount fee"
  note run = ExecuteVAA_Transfer_msg[OF assms(1,2)]
  have meta: "GetDenomMetaData ctx (fst (transferIdentifier env cfg ?tc ?ta)) = Some meta"
    using assms(5,6) by simp
  have am: "transferAmounts env identifier meta (SetBytes (take 32 body))
      (SetBytes (take 32 (drop 100 body)))
      = (if Amount amount < Amount fee then Inl ErrFeeTooHigh else Inr (amount, fee))"
    using assms(7,8,9,10) rawCoin_valid[OF assms(7)] rawCoin_valid[OF assms(9)]
    by (simp add: transferAmounts_def IsLT_def)
  have tr: "ExecuteVAA_Transfer env cfg ctx (Creator msg) body =
      (if Amount amount < Amount fee then (Inl ErrFeeTooHigh, ctx) else ?te)"
    unfolding Transfer_amounts[OF assms(3,4) meta] assms(5)[symmetric] am by simp
  have lt: "Amount amount < Amount fee \<Longrightarrow> ExecuteVAA env ctx msg = (Inl ErrFeeTooHigh, ctx)"
    using run tr by simp
  have ge: "fst (ExecuteVAA env ctx msg) \<noteq> Inl ErrFeeTooHigh" if n: "\<not> Amount amount < Amount fee"
  proof -
    obtain r c where rc: "?te = (r, c)" by (cases ?te)
    have T: "ExecuteVAA_Transfer env cfg ctx (Creator msg) body = (r, c)"
      using tr n rc by simp
    show ?thesis
    proof (cases r)
      case (Inl e)
      with rc have "?te = (Inl e, c)" by simp
      from transferEffects_errors[OF this] have "e \<noteq> ErrFeeTooHigh" by auto
      then show ?thesis using run T Inl by simp
    next
      case (Inr u)
      then show ?thesis using run T by simp
    qed
  qed
  show ?thesis using lt ge by auto
qed

theorem C7_fee_too_high_witness:
  "reachesSwitch (memEnv wire) genesis (submit 3)
     (fromEth ''d3'' 3 (transferPayload [1, 0x2C] (str ''uatom'') [0x0C, 0x20] (replicate 12 0) [2, 0xBC]))
     localConfig
   \<and> rawCoin (memEnv wire) (str ''uatom'') 300 = Inr \<lparr>Denom = str ''uatom'', Amount = 300\<rparr>
   \<and> Untruncate (memEnv wire) \<lparr>Denom = str ''uatom'', Amount = 300\<rparr> (nativeMeta ''uatom'' ''atom'' 6)
       = Inr \<lparr>Denom = str ''uatom'', Amount = 3\<rparr>
   \<and> rawCoin (memEnv wire) (str ''uatom'') 700 = Inr \<lparr>Denom = str ''uatom'', Amount = 700\<rparr>
   \<and> Untruncate (memEnv wire) \<lparr>Denom = str ''uatom'', Amount = 700\<rparr> (nativeMeta ''uatom'' ''atom'' 6)
       = Inr \<lparr>Denom = str ''uatom'', Amount = 7\<rparr>
   \<and> ExecuteVAA (memEnv wire) genesis (submit 3) = (Inl ErrFeeTooHigh, genesis)
   \<and> reachesSwitch (memEnv wire) genesis (submit 2)
     (fromEth ''d2'' 2 (transferPayload [1, 0xF4] (str ''uatom'') [0x0C, 0x20] (replicate 12 0) []))
     localConfig
   \<and> fst (ExecuteVAA (memEnv wire) genesis (submit 2)) \<noteq> Inl ErrFeeTooHigh"
proof -
  let ?env = "memEnv wire"
  let ?v = "fromEth ''d3'' 3
     (transferPayload [1, 0x2C] (str ''uatom'') [0x0C, 0x20] (replicate 12 0) [2, 0xBC])"
  let ?body = "tl (Payload ?v)"
  let ?meta = "nativeMeta ''uatom'' ''atom'' 6"
  let ?coin = "\<lambda>n. \<lparr>Denom = str ''uatom'', Amount = n\<rparr>"
  have h1: "reachesSwitch ?env genesis (submit 3) ?v localConfig" by code_simp
  have h2: "Payload ?v = 1 # ?body" by code_simp
  have h3: "length ?body = 132" by code_simp
  have h4: "ucast (BigEndian_Uint16 (take 2 (drop 98 ?body))) = ChainId localConfig" by code_simp
  have h5: "str ''uatom'' = fst (transferIdentifier ?env localConfig
      (BigEndian_Uint16 (take 2 (drop 64 ?body))) (take 32 (drop 32 ?body)))" by code_simp
  have h6: "GetDenomMetaData genesis (str ''uatom'') = Some ?meta" by code_simp
  have a: "SetBytes (take 32 ?body) = 300" and f: "SetBytes (take 32 (drop 100 ?body)) = 700"
    by code_simp+
  have c3: "rawCoin ?env (str ''uatom'') 300 = Inr (?coin 300)" by code_simp
  have c7: "rawCoin ?env (str ''uatom'') 700 = Inr (?coin 700)" by code_simp
  have u3: "Untruncate ?env (?coin 300) ?meta = Inr (?coin 3)" by code_simp
  have u7: "Untruncate ?env (?coin 700) ?meta = Inr (?coin 7)" by code_simp
  have h7: "rawCoin ?env (str ''uatom'') (SetBytes (take 32 ?body)) = Inr (?coin 300)"
    using c3 a by simp
  have h9: "rawCoin ?env (str ''uatom'') (SetBytes (take 32 (drop 100 ?body))) = Inr (?coin 700)"
    using c7 f by simp
  have r3: "ExecuteVAA ?env genesis (submit 3) = (Inl ErrFeeTooHigh, genesis)"
    using C7_fee_too_high[OF h1 h2 h3 h4 h5 h6 h7 u3 h9 u7] by simp
  let ?w = "fromEth ''d2'' 2
     (transferPayload [1, 0xF4] (str ''uatom'') [0x0C, 0x20] (replicate 12 0) [])"
  let ?wbody = "tl (Payload ?w)"
  have g1: "reachesSwitch ?env genesis (submit 2) ?w localConfig" by code_simp
  have g2: "Payload ?w = 1 # ?wbody" by code_simp
  have g3: "length ?wbody = 132" by code_simp
  have g4: "ucast (BigEndian_Uint16 (take 2 (drop 98 ?wbody))) = ChainId localConfig" by code_simp
  have g5: "str ''uatom'' = fst (transferIdentifier ?env localConfig
      (BigEndian_Uint16 (take 2 (drop 64 ?wbody))) (take 32 (drop 32 ?wbody)))" by code_simp
  have g7: "rawCoin ?env (str ''uatom'') (SetBytes (take 32 ?wbody)) = Inr (?coin 500)"
    by code_simp
  have g8: "Untruncate ?env (?coin 500) ?meta = Inr (?coin 5)" by code_simp
  have g9: "rawCoin ?env (str ''uatom'') (SetBytes (take 32 (drop 100 ?wbody))) = Inr (?coin 0)"
    by code_simp
  have g10: "Untruncate ?env (?coin 0) ?meta = Inr (?coin 0)" by code_simp
  have r2: "fst (ExecuteVAA ?env genesis (submit 2)) \<noteq> Inl ErrFeeTooHigh"
    using C7_fee_too_high[OF g1 g2 g3 g4 g5 h6 g7 g8 g9 g10] by simp
  show ?thesis using h1 c3 u3 c7 u7 r3 g1 r2 by (intro conjI)
qed

text \<open>
  C8, as the source has it. The coins that are validated are those of the raw amount and
  of the raw fee, before they are normalised, and the normalised values are not
  validated. So for a transfer whose raw amount makes a coin: a failure to normalise the
  amount, or the fee once its coin is made, is returned as the failure to untruncate the
  amount or the fee, with the state unchanged; and once both are normalised the call
  fails with neither \<open>ErrInvalidAmount\<close> nor \<open>ErrInvalidFee\<close>, whatever the normalised
  values are.
\<close>

theorem C8_normalisation_failures:
  assumes "reachesSwitch env ctx msg v cfg"
    and "Payload v = 1 # body"
    and "length body = 132"
    and "ucast (BigEndian_Uint16 (take 2 (drop 98 body))) = ChainId cfg"
    and "identifier =
       fst (transferIdentifier env cfg (BigEndian_Uint16 (take 2 (drop 64 body))) (take 32 (drop 32 body)))"
    and "GetDenomMetaData ctx identifier = Some meta"
    and "rawCoin env identifier (SetBytes (take 32 body)) = Inr amt"
  shows "(\<forall>err. Untruncate env amt meta = Inl err \<longrightarrow>
            ExecuteVAA env ctx msg = (Inl (FailedUntruncateAmount err), ctx))
    \<and> (\<forall>err amount f. Untruncate env amt meta = Inr amount
            \<and> rawCoin env identifier (SetBytes (take 32 (drop 100 body))) = Inr f
            \<and> Untruncate env f meta = Inl err \<longrightarrow>
            ExecuteVAA env ctx msg = (Inl (FailedUntruncateFee err), ctx))
    \<and> (\<forall>amount f fee e. Untruncate env amt meta = Inr amount
            \<and> rawCoin env identifier (SetBytes (take 32 (drop 100 body))) = Inr f
            \<and> Untruncate env f meta = Inr fee \<longrightarrow>
            fst (ExecuteVAA env ctx msg) \<noteq> Inl (ErrInvalidAmount e)
            \<and> fst (ExecuteVAA env ctx msg) \<noteq> Inl (ErrInvalidFee e))"
proof -
  let ?tc = "BigEndian_Uint16 (take 2 (drop 64 body))"
  let ?ta = "take 32 (drop 32 body)"
  let ?am = "transferAmounts env identifier meta (SetBytes (take 32 body))
             (SetBytes (take 32 (drop 100 body)))"
  note run = ExecuteVAA_Transfer_msg[OF assms(1,2)]
  note va = rawCoin_valid[OF assms(7)]
  have meta: "GetDenomMetaData ctx (fst (transferIdentifier env cfg ?tc ?ta)) = Some meta"
    using assms(5,6) by simp
  have tr: "ExecuteVAA_Transfer env cfg ctx (Creator msg) body =
     (case ?am of
        Inl e \<Rightarrow> (Inl e, ctx)
      | Inr (amount, fee) \<Rightarrow>
          transferEffects env ctx (Creator msg) ?tc ?ta (take 20 (drop 78 body)) identifier
            (snd (transferIdentifier env cfg ?tc ?ta)) amount fee)"
    unfolding Transfer_amounts[OF assms(3,4) meta] assms(5)[symmetric] by simp
  have fail: "ExecuteVAA env ctx msg = (Inl e, ctx)" if "?am = Inl e" for e
    using run tr that by simp
  have A: "ExecuteVAA env ctx msg = (Inl (FailedUntruncateAmount err), ctx)"
    if "Untruncate env amt meta = Inl err" for err
    by (rule fail) (simp add: transferAmounts_def assms(7) va that)
  have B: "ExecuteVAA env ctx msg = (Inl (FailedUntruncateFee err), ctx)"
    if "Untruncate env amt meta = Inr amount"
      "rawCoin env identifier (SetBytes (take 32 (drop 100 body))) = Inr f"
      "Untruncate env f meta = Inl err" for err amount f
    by (rule fail) (simp add: transferAmounts_def assms(7) va that rawCoin_valid[OF that(2)])
  have C: "fst (ExecuteVAA env ctx msg) \<noteq> Inl (ErrInvalidAmount e)
            \<and> fst (ExecuteVAA env ctx msg) \<noteq> Inl (ErrInvalidFee e)"
    if "Untruncate env amt meta = Inr amount"
      "rawCoin env identifier (SetBytes (take 32 (drop 100 body))) = Inr f"
      "Untruncate env f meta = Inr fee" for amount f fee e
  proof -
    have am: "?am = (if IsLT amount fee then Inl ErrFeeTooHigh else Inr (amount, fee))"
      by (simp add: transferAmounts_def assms(7) va that rawCoin_valid[OF that(2)])
    show ?thesis
    proof (cases "IsLT amount fee")
      case True
      then show ?thesis using fail[of ErrFeeTooHigh] am by simp
    next
      case False
      let ?te = "transferEffects env ctx (Creator msg) ?tc ?ta (take 20 (drop 78 body)) identifier
            (snd (transferIdentifier env cfg ?tc ?ta)) amount fee"
      obtain r c where rc: "?te = (r, c)" by (cases ?te)
      have T: "ExecuteVAA_Transfer env cfg ctx (Creator msg) body = (r, c)"
        using tr am False rc by simp
      show ?thesis
      proof (cases r)
        case (Inl x)
        with rc have "?te = (Inl x, c)" by simp
        from transferEffects_not_invalid[OF this, of e] show ?thesis using run T Inl by simp
      next
        case (Inr u)
        then show ?thesis using run T by simp
      qed
    qed
  qed
  show ?thesis using A B C by blast
qed

theorem C8_normalisation_failures_witness:
  "reachesSwitch (memEnv wire) genesis (submit 11)
     (fromEth ''d11'' 11 (transferPayload [100] (str ''atest'') [0x0C, 0x20] (replicate 12 0)
        (0x40 # replicate 31 0)))
     localConfig
   \<and> rawCoin (memEnv wire) (str ''atest'') 100 = Inr \<lparr>Denom = str ''atest'', Amount = 100\<rparr>
   \<and> Untruncate (memEnv wire) \<lparr>Denom = str ''atest'', Amount = 100\<rparr> (nativeMeta ''atest'' ''test'' 18)
       = Inr \<lparr>Denom = str ''atest'', Amount = 1000000000000\<rparr>
   \<and> rawCoin (memEnv wire) (str ''atest'') (2 ^ 254) = Inr \<lparr>Denom = str ''atest'', Amount = 2 ^ 254\<rparr>
   \<and> Untruncate (memEnv wire) \<lparr>Denom = str ''atest'', Amount = 2 ^ 254\<rparr> (nativeMeta ''atest'' ''test'' 18)
       = Inl ''normalized amount is malformed''
   \<and> ExecuteVAA (memEnv wire) genesis (submit 11)
       = (Inl (FailedUntruncateFee ''normalized amount is malformed''), genesis)
   \<and> reachesSwitch (memEnv wire) genesis (submit 2)
     (fromEth ''d2'' 2 (transferPayload [1, 0xF4] (str ''uatom'') [0x0C, 0x20] (replicate 12 0) []))
     localConfig
   \<and> fst (ExecuteVAA (memEnv wire) genesis (submit 2)) \<noteq> Inl (ErrInvalidAmount ''invalid coin'')
   \<and> fst (ExecuteVAA (memEnv wire) genesis (submit 2)) \<noteq> Inl (ErrInvalidFee ''invalid coin'')"
proof -
  let ?env = "memEnv wire"
  let ?v = "fromEth ''d11'' 11 (transferPayload [100] (str ''atest'') [0x0C, 0x20] (replicate 12 0)
        (0x40 # replicate 31 0))"
  let ?body = "tl (Payload ?v)"
  let ?meta = "nativeMeta ''atest'' ''test'' 18"
  have h1: "reachesSwitch ?env genesis (submit 11) ?v localConfig" by code_simp
  have h2: "Payload ?v = 1 # ?body" by code_simp
  have h3: "length ?body = 132" by code_simp
  have h4: "ucast (BigEndian_Uint16 (take 2 (drop 98 ?body))) = ChainId localConfig" by code_simp
  have h5: "str ''atest'' = fst (transferIdentifier ?env localConfig
      (BigEndian_Uint16 (take 2 (drop 64 ?body))) (take 32 (drop 32 ?body)))" by code_simp
  have h6: "GetDenomMetaData genesis (str ''atest'') = Some ?meta" by code_simp
  have a: "SetBytes (take 32 ?body) = 100" and f: "SetBytes (take 32 (drop 100 ?body)) = 2 ^ 254"
    by code_simp+
  have c1: "rawCoin ?env (str ''atest'') 100 = Inr \<lparr>Denom = str ''atest'', Amount = 100\<rparr>"
    by code_simp
  have u1: "Untruncate ?env \<lparr>Denom = str ''atest'', Amount = 100\<rparr> ?meta
       = Inr \<lparr>Denom = str ''atest'', Amount = 1000000000000\<rparr>" by code_simp
  have c2: "rawCoin ?env (str ''atest'') (2 ^ 254) = Inr \<lparr>Denom = str ''atest'', Amount = 2 ^ 254\<rparr>"
    by code_simp
  have u2: "Untruncate ?env \<lparr>Denom = str ''atest'', Amount = 2 ^ 254\<rparr> ?meta
       = Inl ''normalized amount is malformed''" by code_simp
  have h7: "rawCoin ?env (str ''atest'') (SetBytes (take 32 ?body))
      = Inr \<lparr>Denom = str ''atest'', Amount = 100\<rparr>" using c1 a by simp
  have h9: "rawCoin ?env (str ''atest'') (SetBytes (take 32 (drop 100 ?body)))
      = Inr \<lparr>Denom = str ''atest'', Amount = 2 ^ 254\<rparr>" using c2 f by simp
  have r11: "ExecuteVAA ?env genesis (submit 11)
       = (Inl (FailedUntruncateFee ''normalized amount is malformed''), genesis)"
    using C8_normalisation_failures[OF h1 h2 h3 h4 h5 h6 h7] u1 h9 u2 by blast
  let ?w = "fromEth ''d2'' 2
     (transferPayload [1, 0xF4] (str ''uatom'') [0x0C, 0x20] (replicate 12 0) [])"
  let ?wbody = "tl (Payload ?w)"
  let ?wmeta = "nativeMeta ''uatom'' ''atom'' 6"
  have g1: "reachesSwitch ?env genesis (submit 2) ?w localConfig" by code_simp
  have g2: "Payload ?w = 1 # ?wbody" by code_simp
  have g3: "length ?wbody = 132" by code_simp
  have g4: "ucast (BigEndian_Uint16 (take 2 (drop 98 ?wbody))) = ChainId localConfig" by code_simp
  have g5: "str ''uatom'' = fst (transferIdentifier ?env localConfig
      (BigEndian_Uint16 (take 2 (drop 64 ?wbody))) (take 32 (drop 32 ?wbody)))" by code_simp
  have g6: "GetDenomMetaData genesis (str ''uatom'') = Some ?wmeta" by code_simp
  have g7: "rawCoin ?env (str ''uatom'') (SetBytes (take 32 ?wbody))
      = Inr \<lparr>Denom = str ''uatom'', Amount = 500\<rparr>" by code_simp
  have g8: "Untruncate ?env \<lparr>Denom = str ''uatom'', Amount = 500\<rparr> ?wmeta
      = Inr \<lparr>Denom = str ''uatom'', Amount = 5\<rparr>" by code_simp
  have g9: "rawCoin ?env (str ''uatom'') (SetBytes (take 32 (drop 100 ?wbody)))
      = Inr \<lparr>Denom = str ''uatom'', Amount = 0\<rparr>" by code_simp
  have g10: "Untruncate ?env \<lparr>Denom = str ''uatom'', Amount = 0\<rparr> ?wmeta
      = Inr \<lparr>Denom = str ''uatom'', Amount = 0\<rparr>" by code_simp
  have r2: "fst (ExecuteVAA ?env genesis (submit 2)) \<noteq> Inl (ErrInvalidAmount ''invalid coin'')
      \<and> fst (ExecuteVAA ?env genesis (submit 2)) \<noteq> Inl (ErrInvalidFee ''invalid coin'')"
    using C8_normalisation_failures[OF g1 g2 g3 g4 g5 g6 g7] g8 g9 g10 by blast
  show ?thesis using h1 c1 u1 c2 u2 r11 g1 r2 by (intro conjI) simp_all
qed

text \<open>
  The claim as written checks the normalised amount. A raw amount of \<open>2 ^ 254\<close> in a
  denomination of 18 decimals makes a coin, and its normalised value is not a well-formed
  coin; the call fails in the normaliser, not with \<open>ErrInvalidAmount\<close>.
\<close>

theorem C8_normalized_counterexample:
  "rawCoin (memEnv wire) (str ''atest'') (2 ^ 254) = Inr \<lparr>Denom = str ''atest'', Amount = 2 ^ 254\<rparr>
   \<and> \<not> wellFormedCoin \<lparr>Denom = str ''atest'', Amount = 2 ^ 254 * 10 ^ (18 - 8)\<rparr>
   \<and> Validate (memEnv wire) \<lparr>Denom = str ''atest'', Amount = 2 ^ 254 * 10 ^ (18 - 8)\<rparr>
       = Some ''invalid coin''
   \<and> Untruncate (memEnv wire) \<lparr>Denom = str ''atest'', Amount = 2 ^ 254\<rparr>
        (nativeMeta ''atest'' ''test'' 18)
       = Inl ''normalized amount is malformed''
   \<and> fst (ExecuteVAA (memEnv wire) genesis (submit 10))
       = Inl (FailedUntruncateAmount ''normalized amount is malformed'')"
  by code_simp

section \<open>Asset metadata\<close>

text \<open>
  C4. For a registration that reaches the rollback check (a verified message that passes
  the replay and emitter checks, with a payload of tag 2 and 99 bytes, for a token of a
  registered foreign chain that is not the system's own): if a rollback record of the
  derived identifier has a sequence at or above the message's, the call fails with
  \<open>ErrAssetMetaRollback\<close> and changes nothing; if the call succeeds, the record of the
  identifier holds the message's sequence. And for every state and every identifier, the
  sequence of a rollback record never decreases over any list of committed calls.
\<close>

theorem C4_rollback:
  assumes "reachesSwitch env ctx msg v cfg"
    and "Payload v = 2 # body"
    and "length body = 99"
    and "tokenAddress = take 32 body"
    and "tokenChain = BigEndian_Uint16 (take 2 (drop 32 body))"
    and "ucast tokenChain \<noteq> ChainId cfg"
    and "\<not> IsWORMToken env tokenChain tokenAddress"
    and "GetChainRegistration ctx (ucast tokenChain) \<noteq> None"
    and "identifier = GetWrappedCoinIdentifier env tokenChain tokenAddress"
  shows "(\<forall>r. GetCoinMetaRollbackProtection ctx identifier = Some r
              \<and> LastUpdateSequence r \<ge> Sequence v \<longrightarrow>
            ExecuteVAA env ctx msg = (Inl ErrAssetMetaRollback, ctx))
    \<and> (fst (ExecuteVAA env ctx msg) = Inr () \<longrightarrow>
          GetCoinMetaRollbackProtection (snd (ExecuteVAA env ctx msg)) identifier
            = Some \<lparr>Index = identifier, LastUpdateSequence = Sequence v\<rparr>)
    \<and> (\<forall>ctx0 msgs i r. GetCoinMetaRollbackProtection ctx0 i = Some r \<longrightarrow>
          (\<exists>r'. GetCoinMetaRollbackProtection (foldl (commit env) ctx0 msgs) i = Some r'
                \<and> LastUpdateSequence r \<le> LastUpdateSequence r'))"
proof (intro conjI allI impI)
  note run = ExecuteVAA_AssetMeta_msg[OF assms(1,2)]
  note am = AssetMeta_checked[OF assms(3) assms(6,7,8)[unfolded assms(4,5)], of v,
      folded assms(4,5), folded assms(9)]
  {
    fix r
    assume "GetCoinMetaRollbackProtection ctx identifier = Some r
              \<and> LastUpdateSequence r \<ge> Sequence v"
    then have "ExecuteVAA_AssetMeta env cfg ctx v body = (Inl ErrAssetMetaRollback, ctx)"
      unfolding am by (simp add: Let_def)
    then show "ExecuteVAA env ctx msg = (Inl ErrAssetMetaRollback, ctx)"
      using run by simp
  }
  {
    assume ok: "fst (ExecuteVAA env ctx msg) = Inr ()"
    obtain r c where rc: "ExecuteVAA_AssetMeta env cfg ctx v body = (r, c)"
      by (cases "ExecuteVAA_AssetMeta env cfg ctx v body")
    with ok run obtain u where r: "r = Inr u" by (cases r) auto
    have "coinMetaRollbackProtection c identifier
        = Some \<lparr>Index = identifier, LastUpdateSequence = Sequence v\<rparr>"
      using rc[unfolded am] r
      by (auto simp: Let_def SetDenomMetaData_def SetCoinMetaRollbackProtection_def
          split: if_splits option.splits)
    then show "GetCoinMetaRollbackProtection (snd (ExecuteVAA env ctx msg)) identifier
            = Some \<lparr>Index = identifier, LastUpdateSequence = Sequence v\<rparr>"
      using run rc r by (simp add: SetReplayProtection_def GetCoinMetaRollbackProtection_def)
  }
  {
    fix ctx0 :: "'a state" and msgs i r
    assume "GetCoinMetaRollbackProtection ctx0 i = Some r"
    then show "\<exists>r'. GetCoinMetaRollbackProtection (foldl (commit env) ctx0 msgs) i = Some r'
                \<and> LastUpdateSequence r \<le> LastUpdateSequence r'"
      using foldl_commit_rollback_mono[of ctx0 i r env msgs]
      by (simp add: GetCoinMetaRollbackProtection_def)
  }
qed

theorem C4_rollback_witness:
  "reachesSwitch (memEnv wire) genesis (submit 5)
     (fromEth ''d5'' 5 (assetMetaPayload 8 ''WETH'' ''Wrapped Ether'')) localConfig
   \<and> fst (ExecuteVAA (memEnv wire) genesis (submit 5)) = Inr ()
   \<and> GetCoinMetaRollbackProtection (snd (ExecuteVAA (memEnv wire) genesis (submit 5))) wethIdentifier
       = Some \<lparr>Index = wethIdentifier, LastUpdateSequence = 5\<rparr>
   \<and> reachesSwitch (memEnv wire) registered (submit 6)
     (fromEth ''d6'' 4 (assetMetaPayload 6 ''WETH'' ''Wrapped Ether'')) localConfig
   \<and> GetCoinMetaRollbackProtection registered wethIdentifier
       = Some \<lparr>Index = wethIdentifier, LastUpdateSequence = 5\<rparr>
   \<and> ExecuteVAA (memEnv wire) registered (submit 6) = (Inl ErrAssetMetaRollback, registered)
   \<and> (\<exists>r'. GetCoinMetaRollbackProtection
               (foldl (commit (memEnv wire)) registered [submit 6, submit 8]) wethIdentifier = Some r'
            \<and> (5 :: 64 word) \<le> LastUpdateSequence r')"
proof -
  let ?env = "memEnv wire"
  let ?v = "fromEth ''d5'' 5 (assetMetaPayload 8 ''WETH'' ''Wrapped Ether'')"
  let ?body = "tl (Payload ?v)"
  have h1: "reachesSwitch ?env genesis (submit 5) ?v localConfig" by code_simp
  have h2: "Payload ?v = 2 # ?body" by code_simp
  have h3: "length ?body = 99" by code_simp
  have h4: "wethAddress = take 32 ?body" by code_simp
  have h5: "(2 :: 16 word) = BigEndian_Uint16 (take 2 (drop 32 ?body))" by code_simp
  have h6: "ucast (2 :: 16 word) \<noteq> ChainId localConfig" by code_simp
  have h7: "\<not> IsWORMToken ?env 2 wethAddress" by code_simp
  have h8: "GetChainRegistration genesis (ucast (2 :: 16 word)) \<noteq> None" by code_simp
  have h9: "wethIdentifier = GetWrappedCoinIdentifier ?env 2 wethAddress"
    by (simp add: wethIdentifier_def)
  have ok: "fst (ExecuteVAA ?env genesis (submit 5)) = Inr ()" by code_simp
  have s5: "Sequence ?v = 5" by (simp add: fromEth_def)
  note first = C4_rollback[OF h1 h2 h3 h4 h5 h6 h7 h8 h9]
  have a: "GetCoinMetaRollbackProtection (snd (ExecuteVAA ?env genesis (submit 5))) wethIdentifier
       = Some \<lparr>Index = wethIdentifier, LastUpdateSequence = 5\<rparr>"
    using first ok s5 by simp
  let ?w = "fromEth ''d6'' 4 (assetMetaPayload 6 ''WETH'' ''Wrapped Ether'')"
  let ?wbody = "tl (Payload ?w)"
  have g1: "reachesSwitch ?env registered (submit 6) ?w localConfig" by code_simp
  have g2: "Payload ?w = 2 # ?wbody" by code_simp
  have g3: "length ?wbody = 99" by code_simp
  have g4: "wethAddress = take 32 ?wbody" by code_simp
  have g5: "(2 :: 16 word) = BigEndian_Uint16 (take 2 (drop 32 ?wbody))" by code_simp
  have g8: "GetChainRegistration registered (ucast (2 :: 16 word)) \<noteq> None" by code_simp
  have rec: "GetCoinMetaRollbackProtection registered wethIdentifier
       = Some \<lparr>Index = wethIdentifier, LastUpdateSequence = 5\<rparr>" by code_simp
  have ge: "LastUpdateSequence \<lparr>Index = wethIdentifier, LastUpdateSequence = 5\<rparr> \<ge> Sequence ?w"
    by (simp add: fromEth_def)
  note second = C4_rollback[OF g1 g2 g3 g4 g5 h6 h7 g8 h9]
  have b: "ExecuteVAA ?env registered (submit 6) = (Inl ErrAssetMetaRollback, registered)"
    using second rec ge by blast
  have c: "\<exists>r'. GetCoinMetaRollbackProtection
               (foldl (commit ?env) registered [submit 6, submit 8]) wethIdentifier = Some r'
            \<and> (5 :: 64 word) \<le> LastUpdateSequence r'"
    using second rec by fastforce
  show ?thesis using h1 ok a g1 rec b c by (intro conjI)
qed




section \<open>One key for registration and transfer\<close>

text \<open>
  C10. For a token of a foreign chain that is not the system's own, the denomination
  under which a transfer looks its metadata up is \<open>b\<close> followed by the wrapped coin
  identifier of the token, the base denomination under which a registration of the same
  token writes it. So a successful registration leaves metadata under the key of the
  transfer; a transfer fails with \<open>ErrAssetNotRegistered\<close> exactly when no metadata is
  stored under that key; and the metadata under a key changes only in a call whose message
  is a registration with that key as its base denomination.
\<close>

theorem C10_metadata_key:
  assumes "ucast tokenChain \<noteq> ChainId cfg"
    and "\<not> IsWORMToken env tokenChain tokenAddress"
    and "key = str ''b'' @ GetWrappedCoinIdentifier env tokenChain tokenAddress"
  shows "transferIdentifier env cfg tokenChain tokenAddress = (key, True)
    \<and> (\<forall>ctx msg v body.
          reachesSwitch env ctx msg v cfg \<and> Payload v = 2 # body
          \<and> take 32 body = tokenAddress
          \<and> BigEndian_Uint16 (take 2 (drop 32 body)) = tokenChain
          \<and> fst (ExecuteVAA env ctx msg) = Inr () \<longrightarrow>
          (\<exists>m. GetDenomMetaData (snd (ExecuteVAA env ctx msg)) key = Some m \<and> Base m = key))
    \<and> (\<forall>ctx msg v body.
          reachesSwitch env ctx msg v cfg \<and> Payload v = 1 # body \<and> length body = 132
          \<and> ucast (BigEndian_Uint16 (take 2 (drop 98 body))) = ChainId cfg
          \<and> take 32 (drop 32 body) = tokenAddress
          \<and> BigEndian_Uint16 (take 2 (drop 64 body)) = tokenChain \<longrightarrow>
          (fst (ExecuteVAA env ctx msg) = Inl ErrAssetNotRegistered
             \<longleftrightarrow> GetDenomMetaData ctx key = None))
    \<and> (\<forall>ctx msg k.
          GetDenomMetaData (snd (ExecuteVAA env ctx msg)) k \<noteq> GetDenomMetaData ctx k \<longrightarrow>
          (\<exists>v body. ParseVAA env (Vaa msg) = Inr v \<and> Payload v = 2 # body
             \<and> k = str ''b'' @ GetWrappedCoinIdentifier env
                     (BigEndian_Uint16 (take 2 (drop 32 body))) (take 32 body)))"
proof (intro conjI allI impI)
  show ti: "transferIdentifier env cfg tokenChain tokenAddress = (key, True)"
    using assms by (simp add: transferIdentifier_def)
  {
    fix ctx :: "'a state" and msg v body
    assume h: "reachesSwitch env ctx msg v cfg \<and> Payload v = 2 # body
          \<and> take 32 body = tokenAddress
          \<and> BigEndian_Uint16 (take 2 (drop 32 body)) = tokenChain
          \<and> fst (ExecuteVAA env ctx msg) = Inr ()"
    then have run: "ExecuteVAA env ctx msg =
       (case ExecuteVAA_AssetMeta env cfg ctx v body of
          (Inl e, ctx') \<Rightarrow> (Inl e, ctx')
        | (Inr u, ctx') \<Rightarrow> (Inr (), SetReplayProtection ctx' \<lparr>rp_Index = HexDigest v\<rparr>))"
      using ExecuteVAA_AssetMeta_msg by blast
    obtain r c where rc: "ExecuteVAA_AssetMeta env cfg ctx v body = (r, c)"
      by (cases "ExecuteVAA_AssetMeta env cfg ctx v body")
    with h run obtain u where ok: "ExecuteVAA_AssetMeta env cfg ctx v body = (Inr u, c)"
      by (cases r) auto
    have "key = str ''b'' @ GetWrappedCoinIdentifier env
           (BigEndian_Uint16 (take 2 (drop 32 body))) (take 32 body)"
      using h assms(3) by simp
    from AssetMeta_base[OF ok this]
    show "\<exists>m. GetDenomMetaData (snd (ExecuteVAA env ctx msg)) key = Some m \<and> Base m = key"
      using run ok by (simp add: GetDenomMetaData_def SetReplayProtection_def)
  }
  {
    fix ctx :: "'a state" and msg v body
    assume h: "reachesSwitch env ctx msg v cfg \<and> Payload v = 1 # body \<and> length body = 132
          \<and> ucast (BigEndian_Uint16 (take 2 (drop 98 body))) = ChainId cfg
          \<and> take 32 (drop 32 body) = tokenAddress
          \<and> BigEndian_Uint16 (take 2 (drop 64 body)) = tokenChain"
    then have run: "ExecuteVAA env ctx msg =
       (case ExecuteVAA_Transfer env cfg ctx (Creator msg) body of
          (Inl e, ctx') \<Rightarrow> (Inl e, ctx')
        | (Inr u, ctx') \<Rightarrow> (Inr (), SetReplayProtection ctx' \<lparr>rp_Index = HexDigest v\<rparr>))"
      using ExecuteVAA_Transfer_msg by blast
    have ti': "transferIdentifier env cfg (BigEndian_Uint16 (take 2 (drop 64 body)))
        (take 32 (drop 32 body)) = (key, True)"
      using h ti by simp
    show "fst (ExecuteVAA env ctx msg) = Inl ErrAssetNotRegistered
             \<longleftrightarrow> GetDenomMetaData ctx key = None"
    proof (cases "GetDenomMetaData ctx key")
      case None
      then have "ExecuteVAA_Transfer env cfg ctx (Creator msg) body = (Inl ErrAssetNotRegistered, ctx)"
        using h ti' by (simp add: ExecuteVAA_Transfer_def Let_def)
      then show ?thesis using run None by simp
    next
      case (Some meta)
      have meta: "GetDenomMetaData ctx (fst (transferIdentifier env cfg
          (BigEndian_Uint16 (take 2 (drop 64 body))) (take 32 (drop 32 body)))) = Some meta"
        using Some ti' by simp
      have l: "length body = 132"
        and t: "ucast (BigEndian_Uint16 (take 2 (drop 98 body))) = ChainId cfg"
        using h by simp_all
      note tr = Transfer_amounts[OF l t meta, of "Creator msg"]
      obtain r c where rc: "ExecuteVAA_Transfer env cfg ctx (Creator msg) body = (r, c)"
        by (cases "ExecuteVAA_Transfer env cfg ctx (Creator msg) body")
      have "r \<noteq> Inl ErrAssetNotRegistered"
      proof
        assume bad: "r = Inl ErrAssetNotRegistered"
        show False
        proof (cases "transferAmounts env (fst (transferIdentifier env cfg
            (BigEndian_Uint16 (take 2 (drop 64 body))) (take 32 (drop 32 body)))) meta
            (SetBytes (take 32 body)) (SetBytes (take 32 (drop 100 body)))")
          case (Inl e)
          with tr rc bad have "e = ErrAssetNotRegistered" by simp
          with transferAmounts_errors[OF Inl] show False by simp
        next
          case (Inr p)
          obtain amount fee where p: "p = (amount, fee)" by (cases p)
          have "transferEffects env ctx (Creator msg) (BigEndian_Uint16 (take 2 (drop 64 body)))
              (take 32 (drop 32 body)) (take 20 (drop 78 body))
              (fst (transferIdentifier env cfg (BigEndian_Uint16 (take 2 (drop 64 body)))
                 (take 32 (drop 32 body))))
              (snd (transferIdentifier env cfg (BigEndian_Uint16 (take 2 (drop 64 body)))
                 (take 32 (drop 32 body)))) amount fee = (Inl ErrAssetNotRegistered, c)"
            using tr rc bad Inr p by simp
          from transferEffects_errors[OF this] show False by auto
        qed
      qed
      then show ?thesis using run rc Some by (cases r) auto
    qed
  }
  {
    fix ctx :: "'a state" and msg k
    assume "GetDenomMetaData (snd (ExecuteVAA env ctx msg)) k \<noteq> GetDenomMetaData ctx k"
    then show "\<exists>v body. ParseVAA env (Vaa msg) = Inr v \<and> Payload v = 2 # body
             \<and> k = str ''b'' @ GetWrappedCoinIdentifier env
                     (BigEndian_Uint16 (take 2 (drop 32 body))) (take 32 body)"
      using ExecuteVAA_metadata_changes[of env ctx msg k] by (simp add: GetDenomMetaData_def)
  }
qed

theorem C10_metadata_key_witness:
  "ucast (2 :: 16 word) \<noteq> ChainId localConfig
   \<and> \<not> IsWORMToken (memEnv wire) 2 wethAddress
   \<and> transferIdentifier (memEnv wire) localConfig 2 wethAddress = (str ''b'' @ wethIdentifier, True)
   \<and> reachesSwitch (memEnv wire) genesis (submit 5)
        (fromEth ''d5'' 5 (assetMetaPayload 8 ''WETH'' ''Wrapped Ether'')) localConfig
   \<and> fst (ExecuteVAA (memEnv wire) genesis (submit 5)) = Inr ()
   \<and> (\<exists>m. GetDenomMetaData (snd (ExecuteVAA (memEnv wire) genesis (submit 5)))
              (str ''b'' @ wethIdentifier) = Some m \<and> Base m = str ''b'' @ wethIdentifier)
   \<and> reachesSwitch (memEnv wire) genesis (submit 9)
        (fromEth ''d9'' 9 (transferPayload [100] wethAddress [0, 2] (replicate 12 0) [1])) localConfig
   \<and> GetDenomMetaData genesis (str ''b'' @ wethIdentifier) = None
   \<and> fst (ExecuteVAA (memEnv wire) genesis (submit 9)) = Inl ErrAssetNotRegistered
   \<and> reachesSwitch (memEnv wire) registered (submit 9)
        (fromEth ''d9'' 9 (transferPayload [100] wethAddress [0, 2] (replicate 12 0) [1])) localConfig
   \<and> GetDenomMetaData registered (str ''b'' @ wethIdentifier) \<noteq> None
   \<and> fst (ExecuteVAA (memEnv wire) registered (submit 9)) \<noteq> Inl ErrAssetNotRegistered"
proof -
  let ?env = "memEnv wire"
  let ?key = "str ''b'' @ wethIdentifier"
  have h1: "ucast (2 :: 16 word) \<noteq> ChainId localConfig" by code_simp
  have h2: "\<not> IsWORMToken ?env 2 wethAddress" by code_simp
  have h3: "?key = str ''b'' @ GetWrappedCoinIdentifier ?env 2 wethAddress"
    by (simp add: wethIdentifier_def)
  note claim = C10_metadata_key[OF h1 h2 h3]
  have a: "transferIdentifier ?env localConfig 2 wethAddress = (?key, True)"
    using claim by blast
  let ?v = "fromEth ''d5'' 5 (assetMetaPayload 8 ''WETH'' ''Wrapped Ether'')"
  let ?body = "tl (Payload ?v)"
  have r1: "reachesSwitch ?env genesis (submit 5) ?v localConfig" by code_simp
  have r2: "Payload ?v = 2 # ?body" by code_simp
  have r3: "take 32 ?body = wethAddress" by code_simp
  have r4: "BigEndian_Uint16 (take 2 (drop 32 ?body)) = 2" by code_simp
  have r5: "fst (ExecuteVAA ?env genesis (submit 5)) = Inr ()" by code_simp
  have b: "\<exists>m. GetDenomMetaData (snd (ExecuteVAA ?env genesis (submit 5))) ?key = Some m
      \<and> Base m = ?key"
    using claim r1 r2 r3 r4 r5 by blast
  let ?w = "fromEth ''d9'' 9 (transferPayload [100] wethAddress [0, 2] (replicate 12 0) [1])"
  let ?wbody = "tl (Payload ?w)"
  have t2: "Payload ?w = 1 # ?wbody" by code_simp
  have t3: "length ?wbody = 132" by code_simp
  have t4: "ucast (BigEndian_Uint16 (take 2 (drop 98 ?wbody))) = ChainId localConfig" by code_simp
  have t5: "take 32 (drop 32 ?wbody) = wethAddress" by code_simp
  have t6: "BigEndian_Uint16 (take 2 (drop 64 ?wbody)) = 2" by code_simp
  have g1: "reachesSwitch ?env genesis (submit 9) ?w localConfig" by code_simp
  have g2: "GetDenomMetaData genesis ?key = None" by code_simp
  note lookup = claim[THEN conjunct2, THEN conjunct2, THEN conjunct1, rule_format,
      of _ "submit 9" ?w ?wbody]
  have c: "fst (ExecuteVAA ?env genesis (submit 9)) = Inl ErrAssetNotRegistered"
    using lookup[of genesis] g1 t2 t3 t4 t5 t6 g2 by simp
  have k1: "reachesSwitch ?env registered (submit 9) ?w localConfig" by code_simp
  have k2: "GetDenomMetaData registered ?key \<noteq> None" by code_simp
  have d: "fst (ExecuteVAA ?env registered (submit 9)) \<noteq> Inl ErrAssetNotRegistered"
    using lookup[of registered] k1 t2 t3 t4 t5 t6 k2 by simp
  show ?thesis using h1 h2 a r1 r5 b g1 g2 c k1 k2 d by (intro conjI)
qed

section \<open>Writes and failures\<close>

text \<open>
  C2, as the source has it. The replay record is written on success only, after every
  other effect: a call that fails leaves the replay store as it found it, and a call that
  succeeds leaves it with the record of the message's digest added. A failure of one of
  the function's own checks (every error but a propagated error of a collaborator and a
  failed fee send) returns the state unchanged: no write precedes it. The failures that
  remain (a send, the decoding of the sender's address, the emission of the event) come
  after the mint, the sends or the metadata and rollback writes of the same call.
\<close>

theorem C2_writes_and_failures:
  "(\<forall>e. fst (ExecuteVAA env ctx msg) = Inl e \<longrightarrow>
       replayProtection (snd (ExecuteVAA env ctx msg)) = replayProtection ctx)
   \<and> (\<forall>e. fst (ExecuteVAA env ctx msg) = Inl e
          \<and> (\<forall>x. e \<noteq> Propagated x) \<and> (\<forall>c x. e \<noteq> FailedSendFees c x) \<longrightarrow>
          snd (ExecuteVAA env ctx msg) = ctx)
   \<and> (fst (ExecuteVAA env ctx msg) = Inr () \<longrightarrow>
        (\<exists>v. ParseVAA env (Vaa msg) = Inr v
           \<and> replayProtection (snd (ExecuteVAA env ctx msg))
               = (replayProtection ctx)(HexDigest v \<mapsto> \<lparr>rp_Index = HexDigest v\<rparr>)))"
proof -
  obtain r c where rc: "ExecuteVAA env ctx msg = (r, c)" by (cases "ExecuteVAA env ctx msg")
  note st = ExecuteVAA_stores[OF rc]
  have own: "c = ctx" if "r = Inl e" "\<forall>x. e \<noteq> Propagated x" "\<forall>c x. e \<noteq> FailedSendFees c x" for e
  proof -
    have "c = ctx \<or> (\<exists>cfg v. ExecuteVAA_verified env cfg ctx v (Creator msg) = (Inl e, c))"
      using rc that(1) by (auto simp: ExecuteVAA_def split: sum.splits option.splits)
    then show ?thesis using verified_errors that(2,3) by blast
  qed
  show ?thesis
    using rc st own by (cases r) auto
qed

theorem C2_writes_and_failures_witness:
  "fst (ExecuteVAA (memEnv wire) genesis (submit 3)) = Inl ErrFeeTooHigh
   \<and> snd (ExecuteVAA (memEnv wire) genesis (submit 3)) = genesis
   \<and> fst (ExecuteVAA (memEnv wire) genesis (submit 1))
       = Inl (FailedSendFees \<lparr>Denom = str ''uatom'', Amount = 3\<rparr> ''insufficient funds'')
   \<and> replayProtection (snd (ExecuteVAA (memEnv wire) genesis (submit 1))) = replayProtection genesis
   \<and> fst (ExecuteVAA (memEnv wire) genesis (submit 2)) = Inr ()
   \<and> replayProtection (snd (ExecuteVAA (memEnv wire) genesis (submit 2)))
       = (replayProtection genesis)(str ''d2'' \<mapsto> \<lparr>rp_Index = str ''d2''\<rparr>)"
proof -
  let ?env = "memEnv wire"
  have f3: "fst (ExecuteVAA ?env genesis (submit 3)) = Inl ErrFeeTooHigh" by code_simp
  have a: "snd (ExecuteVAA ?env genesis (submit 3)) = genesis"
    using C2_writes_and_failures[of ?env genesis "submit 3"] f3 by simp
  have f1: "fst (ExecuteVAA ?env genesis (submit 1))
       = Inl (FailedSendFees \<lparr>Denom = str ''uatom'', Amount = 3\<rparr> ''insufficient funds'')"
    by code_simp
  have b: "replayProtection (snd (ExecuteVAA ?env genesis (submit 1))) = replayProtection genesis"
    using C2_writes_and_failures[of ?env genesis "submit 1"] f1 by simp
  have f2: "fst (ExecuteVAA ?env genesis (submit 2)) = Inr ()" by code_simp
  have p2: "ParseVAA ?env (Vaa (submit 2)) = Inr (fromEth ''d2'' 2
     (transferPayload [1, 0xF4] (str ''uatom'') [0x0C, 0x20] (replicate 12 0) []))" by code_simp
  have c: "replayProtection (snd (ExecuteVAA ?env genesis (submit 2)))
       = (replayProtection genesis)(str ''d2'' \<mapsto> \<lparr>rp_Index = str ''d2''\<rparr>)"
    using C2_writes_and_failures[of ?env genesis "submit 2"] f2 p2 by (auto simp: fromEth_def)
  show ?thesis using f3 a f1 b f2 c by (intro conjI)
qed

text \<open>
  The claim as written has no write before any failure. Message 1 transfers 7 with fee 3
  from a module account of 5: the recipient is paid 4, then the fee cannot be sent, and
  the call fails with the balances changed.
\<close>

theorem C2_partial_write_counterexample:
  "fst (ExecuteVAA (memEnv wire) genesis (submit 1))
     = Inl (FailedSendFees \<lparr>Denom = str ''uatom'', Amount = 3\<rparr> ''insufficient funds'')
   \<and> ledger genesis (str ''tokenbridge'', str ''uatom'') = 5
   \<and> ledger genesis (recipient, str ''uatom'') = 0
   \<and> ledger (snd (ExecuteVAA (memEnv wire) genesis (submit 1))) (str ''tokenbridge'', str ''uatom'') = 1
   \<and> ledger (snd (ExecuteVAA (memEnv wire) genesis (submit 1))) (recipient, str ''uatom'') = 4"
  by code_simp

section \<open>The reserved bytes of a transfer\<close>

text \<open>
  C9, as the source has it. Two verified messages of one emitter whose payloads are
  transfers of 132 bytes that differ in the bytes 66 to 77 only, both with or both
  without a replay record, submitted by one sender from the same state, end alike: the
  same error or success, and the same state but for the replay store. The replay store of
  each is that of the state it started from, with the record of its own digest added if
  it succeeded.
\<close>

theorem C9_reserved_bytes:
  assumes "ParseVAA env (Vaa msg1) = Inr v1"
    and "ParseVAA env (Vaa msg2) = Inr v2"
    and "VerifyVAA env ctx v1 = None"
    and "VerifyVAA env ctx v2 = None"
    and "Creator msg1 = Creator msg2"
    and "Payload v1 = PayloadIDTransfer # body1"
    and "Payload v2 = PayloadIDTransfer # body2"
    and "length body1 = 132" and "length body2 = 132"
    and "take 66 body1 = take 66 body2" and "drop 78 body1 = drop 78 body2"
    and "EmitterChain v1 = EmitterChain v2"
    and "EmitterAddress v1 = EmitterAddress v2"
    and "(GetReplayProtection ctx (HexDigest v1) = None)
          = (GetReplayProtection ctx (HexDigest v2) = None)"
  shows "fst (ExecuteVAA env ctx msg1) = fst (ExecuteVAA env ctx msg2)
    \<and> (snd (ExecuteVAA env ctx msg1))\<lparr>replayProtection := replayProtection ctx\<rparr>
        = (snd (ExecuteVAA env ctx msg2))\<lparr>replayProtection := replayProtection ctx\<rparr>
    \<and> replayProtection (snd (ExecuteVAA env ctx msg1))
        = (case fst (ExecuteVAA env ctx msg1) of
             Inl e \<Rightarrow> replayProtection ctx
           | Inr u \<Rightarrow> (replayProtection ctx)(HexDigest v1 \<mapsto> \<lparr>rp_Index = HexDigest v1\<rparr>))
    \<and> replayProtection (snd (ExecuteVAA env ctx msg2))
        = (case fst (ExecuteVAA env ctx msg2) of
             Inl e \<Rightarrow> replayProtection ctx
           | Inr u \<Rightarrow> (replayProtection ctx)(HexDigest v2 \<mapsto> \<lparr>rp_Index = HexDigest v2\<rparr>))"
proof -
  obtain r1 c1 where e1: "ExecuteVAA env ctx msg1 = (r1, c1)" by (cases "ExecuteVAA env ctx msg1")
  obtain r2 c2 where e2: "ExecuteVAA env ctx msg2 = (r2, c2)" by (cases "ExecuteVAA env ctx msg2")
  have s1: "replayProtection c1 = (case r1 of Inl e \<Rightarrow> replayProtection ctx
           | Inr u \<Rightarrow> (replayProtection ctx)(HexDigest v1 \<mapsto> \<lparr>rp_Index = HexDigest v1\<rparr>))"
    using ExecuteVAA_stores[OF e1] assms(1) by (cases r1) auto
  have s2: "replayProtection c2 = (case r2 of Inl e \<Rightarrow> replayProtection ctx
           | Inr u \<Rightarrow> (replayProtection ctx)(HexDigest v2 \<mapsto> \<lparr>rp_Index = HexDigest v2\<rparr>))"
    using ExecuteVAA_stores[OF e2] assms(2) by (cases r2) auto
  have eq: "r1 = r2 \<and> c1\<lparr>replayProtection := replayProtection ctx\<rparr>
                   = c2\<lparr>replayProtection := replayProtection ctx\<rparr>"
  proof (cases "GetConfig ctx")
    case None
    then show ?thesis using e1 e2 assms(1-4) by (auto simp: ExecuteVAA_def)
  next
    case (Some cfg)
    have v1: "ExecuteVAA_verified env cfg ctx v1 (Creator msg2) = (r1, c1)"
      using e1 ExecuteVAA_unfold[OF assms(1,3) Some] assms(5) by simp
    have v2: "ExecuteVAA_verified env cfg ctx v2 (Creator msg2) = (r2, c2)"
      using e2 ExecuteVAA_unfold[OF assms(2,4) Some] by simp
    from verified_reserved[OF assms(6-14) v1 v2] show ?thesis .
  qed
  show ?thesis using e1 e2 s1 s2 eq by simp
qed

theorem C9_reserved_bytes_witness:
  "ParseVAA (memEnv wire) (Vaa (submit 2))
     = Inr (fromEth ''d2'' 2 (transferPayload [1, 0xF4] (str ''uatom'') [0x0C, 0x20] (replicate 12 0) []))
   \<and> ParseVAA (memEnv wire) (Vaa (submit 12))
     = Inr (fromEth ''d12'' 2 (transferPayload [1, 0xF4] (str ''uatom'') [0x0C, 0x20] (replicate 12 0xFF) []))
   \<and> GetReplayProtection genesis (str ''d2'') = None
   \<and> GetReplayProtection genesis (str ''d12'') = None
   \<and> fst (ExecuteVAA (memEnv wire) genesis (submit 2)) = Inr ()
   \<and> fst (ExecuteVAA (memEnv wire) genesis (submit 12)) = Inr ()
   \<and> (snd (ExecuteVAA (memEnv wire) genesis (submit 2)))\<lparr>replayProtection := replayProtection genesis\<rparr>
       = (snd (ExecuteVAA (memEnv wire) genesis (submit 12)))\<lparr>replayProtection := replayProtection genesis\<rparr>
   \<and> replayProtection (snd (ExecuteVAA (memEnv wire) genesis (submit 2)))
       = (replayProtection genesis)(str ''d2'' \<mapsto> \<lparr>rp_Index = str ''d2''\<rparr>)
   \<and> replayProtection (snd (ExecuteVAA (memEnv wire) genesis (submit 12)))
       = (replayProtection genesis)(str ''d12'' \<mapsto> \<lparr>rp_Index = str ''d12''\<rparr>)"
proof -
  let ?env = "memEnv wire"
  let ?v1 = "fromEth ''d2'' 2 (transferPayload [1, 0xF4] (str ''uatom'') [0x0C, 0x20] (replicate 12 0) [])"
  let ?v2 = "fromEth ''d12'' 2 (transferPayload [1, 0xF4] (str ''uatom'') [0x0C, 0x20] (replicate 12 0xFF) [])"
  let ?b1 = "tl (Payload ?v1)"
  let ?b2 = "tl (Payload ?v2)"
  have h1: "ParseVAA ?env (Vaa (submit 2)) = Inr ?v1" by code_simp
  have h2: "ParseVAA ?env (Vaa (submit 12)) = Inr ?v2" by code_simp
  have h3: "VerifyVAA ?env genesis x = None" for x by (simp add: memEnv_def)
  have h5: "Creator (submit 2) = Creator (submit 12)" by (simp add: submit_def)
  have h6: "Payload ?v1 = PayloadIDTransfer # ?b1" by code_simp
  have h7: "Payload ?v2 = PayloadIDTransfer # ?b2" by code_simp
  have h8: "length ?b1 = 132" and h9: "length ?b2 = 132" by code_simp+
  have h10: "take 66 ?b1 = take 66 ?b2" by code_simp
  have h11: "drop 78 ?b1 = drop 78 ?b2" by code_simp
  have h12: "EmitterChain ?v1 = EmitterChain ?v2" by (simp add: fromEth_def)
  have h13: "EmitterAddress ?v1 = EmitterAddress ?v2" by (simp add: fromEth_def)
  have f1: "GetReplayProtection genesis (str ''d2'') = None" by code_simp
  have f2: "GetReplayProtection genesis (str ''d12'') = None" by code_simp
  have d1: "HexDigest ?v1 = str ''d2''" and d2: "HexDigest ?v2 = str ''d12''"
    by (simp_all add: fromEth_def)
  have h14: "(GetReplayProtection genesis (HexDigest ?v1) = None)
          = (GetReplayProtection genesis (HexDigest ?v2) = None)"
    using f1 f2 d1 d2 by simp
  have ok1: "fst (ExecuteVAA ?env genesis (submit 2)) = Inr ()" by code_simp
  have ok2: "fst (ExecuteVAA ?env genesis (submit 12)) = Inr ()" by code_simp
  note claim = C9_reserved_bytes[OF h1 h2 h3 h3 h5 h6 h7 h8 h9 h10 h11 h12 h13 h14]
  have a: "(snd (ExecuteVAA ?env genesis (submit 2)))\<lparr>replayProtection := replayProtection genesis\<rparr>
       = (snd (ExecuteVAA ?env genesis (submit 12)))\<lparr>replayProtection := replayProtection genesis\<rparr>"
    using claim by blast
  have b: "replayProtection (snd (ExecuteVAA ?env genesis (submit 2)))
       = (replayProtection genesis)(str ''d2'' \<mapsto> \<lparr>rp_Index = str ''d2''\<rparr>)"
    using claim[THEN conjunct2, THEN conjunct2, THEN conjunct1] ok1 d1 by simp
  have c: "replayProtection (snd (ExecuteVAA ?env genesis (submit 12)))
       = (replayProtection genesis)(str ''d12'' \<mapsto> \<lparr>rp_Index = str ''d12''\<rparr>)"
    using claim[THEN conjunct2, THEN conjunct2, THEN conjunct2] ok2 d2 by simp
  show ?thesis using h1 h2 f1 f2 ok1 ok2 a b c by (intro conjI)
qed

text \<open>
  The claim as written has the same state writes for both. Messages 2 and 12 differ in
  the reserved bytes, and so in their digests; both succeed, and each writes the replay
  record of its own digest (line 254): the states they leave are not the same.
\<close>

theorem C9_replay_key_counterexample:
  "ParseVAA (memEnv wire) (Vaa (submit 2))
     = Inr (fromEth ''d2'' 2 (transferPayload [1, 0xF4] (str ''uatom'') [0x0C, 0x20] (replicate 12 0) []))
   \<and> ParseVAA (memEnv wire) (Vaa (submit 12))
     = Inr (fromEth ''d12'' 2 (transferPayload [1, 0xF4] (str ''uatom'') [0x0C, 0x20] (replicate 12 0xFF) []))
   \<and> fst (ExecuteVAA (memEnv wire) genesis (submit 2)) = Inr ()
   \<and> fst (ExecuteVAA (memEnv wire) genesis (submit 12)) = Inr ()
   \<and> GetReplayProtection (snd (ExecuteVAA (memEnv wire) genesis (submit 2))) (str ''d2'')
       = Some \<lparr>rp_Index = str ''d2''\<rparr>
   \<and> GetReplayProtection (snd (ExecuteVAA (memEnv wire) genesis (submit 12))) (str ''d2'') = None
   \<and> ExecuteVAA (memEnv wire) genesis (submit 2) \<noteq> ExecuteVAA (memEnv wire) genesis (submit 12)"
proof -
  let ?env = "memEnv wire"
  have a: "ParseVAA ?env (Vaa (submit 2))
     = Inr (fromEth ''d2'' 2 (transferPayload [1, 0xF4] (str ''uatom'') [0x0C, 0x20] (replicate 12 0) []))"
    by code_simp
  have b: "ParseVAA ?env (Vaa (submit 12))
     = Inr (fromEth ''d12'' 2 (transferPayload [1, 0xF4] (str ''uatom'') [0x0C, 0x20] (replicate 12 0xFF) []))"
    by code_simp
  have c: "fst (ExecuteVAA ?env genesis (submit 2)) = Inr ()" by code_simp
  have d: "fst (ExecuteVAA ?env genesis (submit 12)) = Inr ()" by code_simp
  have e: "GetReplayProtection (snd (ExecuteVAA ?env genesis (submit 2))) (str ''d2'')
       = Some \<lparr>rp_Index = str ''d2''\<rparr>" by code_simp
  have f: "GetReplayProtection (snd (ExecuteVAA ?env genesis (submit 12))) (str ''d2'') = None"
    by code_simp
  have g: "ExecuteVAA ?env genesis (submit 2) \<noteq> ExecuteVAA ?env genesis (submit 12)"
    using e f by auto
  show ?thesis using a b c d e f g by (intro conjI)
qed

end
